theory Spec2Isabelle
  imports Main
begin

section \<open>Stylesheet bundling: the Sass adapter, the component bundle options, the app shell\<close>

text \<open>
  A shallow embedding of \<^verbatim>\<open>stylesheets/sass-language.ts\<close>,
  \<^verbatim>\<open>stylesheets/bundle-options.ts\<close> and of \<^verbatim>\<open>getComponentTemplate\<close> in
  \<^verbatim>\<open>schematics/angular/app-shell/index.ts\<close>.

  JavaScript strings are \<^typ>\<open>string\<close>; a value that may be \<^verbatim>\<open>undefined\<close> is an
  \<^typ>\<open>'a option\<close>; a string is truthy when it is not empty. Functions of the
  Node.js library and of the host bundler are not part of the sources: they are
  parameters, collected in records, and the theorems hold for every choice of them.
  The assumptions made on them are: the functions of \<^verbatim>\<open>node:path\<close>, \<^verbatim>\<open>pathToFileURL\<close>
  and \<^verbatim>\<open>build.resolve\<close> return normally on strings (an unresolved specifier gives a
  result whose \<^verbatim>\<open>path\<close> is empty), and \<^verbatim>\<open>fileURLToPath\<close> is only applied to the
  \<^verbatim>\<open>file:\<close> URLs the engine reports for stylesheets it loaded, on which it returns
  normally.
\<close>

subsection \<open>JavaScript helpers\<close>

text \<open>\<^verbatim>\<open>String.prototype.split\<close> with a one-character separator: the result is never empty.\<close>

fun split :: "char \<Rightarrow> string \<Rightarrow> string list" where
  "split c [] = [[]]"
| "split c (x # xs) =
     (if x = c then [] # split c xs
      else (case split c xs of
              [] \<Rightarrow> [[x]]
            | p # ps \<Rightarrow> (x # p) # ps))"

text \<open>\<^verbatim>\<open>Array.prototype.join\<close> on strings.\<close>

fun js_join :: "string \<Rightarrow> string list \<Rightarrow> string" where
  "js_join sep [] = []"
| "js_join sep [x] = x"
| "js_join sep (x # y # ys) = x @ sep @ js_join sep (y # ys)"

text \<open>\<^verbatim>\<open>String.prototype.startsWith\<close> and \<^verbatim>\<open>endsWith\<close>.\<close>

definition startsWith :: "string \<Rightarrow> string \<Rightarrow> bool" where
  "startsWith s p = (take (length p) s = p)"

definition endsWith :: "string \<Rightarrow> string \<Rightarrow> bool" where
  "endsWith s p = (length p \<le> length s \<and> drop (length s - length p) s = p)"

text \<open>
  \<^verbatim>\<open>Number.prototype.toString\<close> on a counter: a non-negative integer, written in
  decimal.
\<close>

definition digit :: "nat \<Rightarrow> char" where
  "digit d = ''0123456789'' ! d"

fun string_of_nat :: "nat \<Rightarrow> string" where
  "string_of_nat k =
     (if k < 10 then [digit k] else string_of_nat (k div 10) @ [digit (k mod 10)])"

declare string_of_nat.simps [simp del]

subsection \<open>The Node.js library and the host bundler, as parameters\<close>

text \<open>The source map object of the Sass engine (\<^verbatim>\<open>RawSourceMap\<close>).\<close>

record raw_source_map =
  version :: nat
  sources :: "string list"
  names :: "string list"
  mappings :: string
  sourcesContent :: "string list option"

text \<open>
  \<^verbatim>\<open>node:url\<close>, \<^verbatim>\<open>node:path\<close>, \<^verbatim>\<open>node:crypto\<close>, \<^verbatim>\<open>Buffer\<close> and \<^verbatim>\<open>JSON\<close>. A URL is the
  string of its \<^verbatim>\<open>href\<close>. \<^verbatim>\<open>sha256_hex data\<close> is
  \<^verbatim>\<open>createHash('sha256').update(data).digest('hex')\<close>, and \<^verbatim>\<open>base64 s\<close> is
  \<^verbatim>\<open>Buffer.from(s, 'utf-8').toString('base64')\<close>.
\<close>

record node =
  pathToFileURL :: "string \<Rightarrow> string"
  fileURLToPath :: "string \<Rightarrow> string"
  dirname :: "string \<Rightarrow> string"
  join :: "string list \<Rightarrow> string"
  relative :: "string \<Rightarrow> string \<Rightarrow> string"
  basename :: "string \<Rightarrow> string"
  path_resolve :: "string \<Rightarrow> string \<Rightarrow> string"
  sha256_hex :: "string \<Rightarrow> string"
  base64 :: "string \<Rightarrow> string"
  json_stringify :: "raw_source_map \<Rightarrow> string"

text \<open>
  The plugin build of the host bundler: \<^verbatim>\<open>build.resolve(url, {kind, resolveDir})\<close> gives
  the \<^verbatim>\<open>path\<close> of its result (empty when unresolved), and
  \<^verbatim>\<open>build.initialOptions.absWorkingDir\<close>.
\<close>

record build =
  resolve :: "string \<Rightarrow> string \<Rightarrow> string"
  absWorkingDir :: string

text \<open>A call of \<^verbatim>\<open>build.resolve\<close>: the specifier and the resolve directory.\<close>

type_synonym resolve_call = "string \<times> string"

subsection \<open>\<^verbatim>\<open>resolveUrl\<close> (sass-language.ts, lines 36 to 58)\<close>

text \<open>
  The loop over \<^verbatim>\<open>previousResolvedModules\<close>, a \<^verbatim>\<open>Set\<close> iterated in insertion order
  (a list here). Every function returns the path of the last result with the calls
  of \<^verbatim>\<open>build.resolve\<close> it made, in order.
\<close>

fun resolvePrevious :: "build \<Rightarrow> string \<Rightarrow> string list \<Rightarrow> string \<Rightarrow> string \<times> resolve_call list" where
  "resolvePrevious b url [] result = (result, [])"
| "resolvePrevious b url (previous # rest) result =
     (let result' = resolve b url previous in
      if result' \<noteq> [] then (result', [(url, previous)])
      else (let (r, calls) = resolvePrevious b url rest result'
            in (r, (url, previous) # calls)))"

definition resolveUrl :: "build \<Rightarrow> string \<Rightarrow> string list option \<Rightarrow> string \<times> resolve_call list" where
  "resolveUrl b url previousResolvedModules =
     (let result = resolve b url (absWorkingDir b);
          first = (url, absWorkingDir b) in
      case previousResolvedModules of
        None \<Rightarrow> (result, [first])
      | Some previous \<Rightarrow>
          if result = [] \<and> previous \<noteq> [] then
            (let (r, calls) = resolvePrevious b url previous result in (r, first # calls))
          else (result, [first]))"

subsection \<open>\<^verbatim>\<open>findFileUrl\<close> (sass-language.ts, lines 89 to 141)\<close>

definition hasScope :: "string list \<Rightarrow> bool" where
  "hasScope parts = (length parts \<ge> 2 \<and> startsWith (hd parts) ''@'')"

text \<open>
  The destructuring \<^verbatim>\<open>[nameOrScope, nameOrFirstPath, ...pathPart] = parts\<close>: the second
  name is \<^verbatim>\<open>undefined\<close> when there is one part only.
\<close>

definition nameOrScope :: "string list \<Rightarrow> string" where
  "nameOrScope parts = (case parts of [] \<Rightarrow> ''undefined'' | p # _ \<Rightarrow> p)"

definition nameOrFirstPath :: "string list \<Rightarrow> string option" where
  "nameOrFirstPath parts = (case parts of _ # q # _ \<Rightarrow> Some q | _ \<Rightarrow> None)"

definition pathPart :: "string list \<Rightarrow> string list" where
  "pathPart parts = drop 2 parts"

definition packageName :: "string list \<Rightarrow> string" where
  "packageName parts =
     (if hasScope parts
      then nameOrScope parts @ ''/'' @
           (case nameOrFirstPath parts of None \<Rightarrow> ''undefined'' | Some q \<Rightarrow> q)
      else nameOrScope parts)"

text \<open>The arguments of \<^verbatim>\<open>join\<close> after the package directory.\<close>

definition deepImportSegments :: "string list \<Rightarrow> string list" where
  "deepImportSegments parts =
     (case nameOrFirstPath parts of
        Some q \<Rightarrow> (if \<not> hasScope parts \<and> q \<noteq> [] then q else [])
      | None \<Rightarrow> []) # pathPart parts"

definition deepImportUrl :: "node \<Rightarrow> string list \<Rightarrow> string \<Rightarrow> string" where
  "deepImportUrl n parts packagePath =
     pathToFileURL n (join n (dirname n packagePath # deepImportSegments parts))"

definition findFileUrl ::
  "node \<Rightarrow> (string \<Rightarrow> string list option \<Rightarrow> string \<times> resolve_call list) \<Rightarrow>
   string \<Rightarrow> string list option \<Rightarrow> string option \<times> resolve_call list" where
  "findFileUrl n resolveUrl' url previousResolvedModules =
     (let (result, c1) = resolveUrl' url None in
      if result \<noteq> [] then (Some (pathToFileURL n result), c1)
      else
        let parts = split CHR ''/'' url;
            (packageResult, c2) = resolveUrl' (packageName parts @ ''/package.json'') None in
        if packageResult \<noteq> [] then (Some (deepImportUrl n parts packageResult), c1 @ c2)
        else
          let (result3, c3) = resolveUrl' url previousResolvedModules in
          if result3 \<noteq> [] then (Some (pathToFileURL n result3), c1 @ c2 @ c3)
          else
            let (packageResult4, c4) =
                  resolveUrl' (packageName parts @ ''/package.json'') previousResolvedModules in
            if packageResult4 \<noteq> []
            then (Some (deepImportUrl n parts packageResult4), c1 @ c2 @ c3 @ c4)
            else (None, c1 @ c2 @ c3 @ c4))"

subsection \<open>Values thrown, and \<^verbatim>\<open>isSassException\<close> (sass-language.ts, lines 21 to 23)\<close>

record source_span =
  span_url :: "string option"
  span_context :: "string option"
  start_line :: nat
  start_column :: nat

text \<open>The \<^verbatim>\<open>Exception\<close> of the Sass engine: an \<^verbatim>\<open>Error\<close> with three more properties.\<close>

record sass_exception =
  message :: string
  sassMessage :: string
  sassStack :: string
  span :: source_span

text \<open>
  What a \<^verbatim>\<open>catch\<close> clause can receive: a primitive value, or an object. An object is
  an \<^verbatim>\<open>Error\<close> without a \<^verbatim>\<open>sassMessage\<close> property (given by its message), or the
  engine's \<^verbatim>\<open>Exception\<close>, which is what the type guard of the source narrows an
  object with that property to.
\<close>

datatype js_thrown =
  JsUndefined
| JsNull
| JsBoolean bool
| JsNumber int
| JsString string
| JsError string
| JsSassException sass_exception

fun truthy :: "js_thrown \<Rightarrow> bool" where
  "truthy JsUndefined = False"
| "truthy JsNull = False"
| "truthy (JsBoolean b) = b"
| "truthy (JsNumber k) = (k \<noteq> 0)"
| "truthy (JsString s) = (s \<noteq> [])"
| "truthy (JsError m) = True"
| "truthy (JsSassException e) = True"

fun typeof :: "js_thrown \<Rightarrow> string" where
  "typeof JsUndefined = ''undefined''"
| "typeof JsNull = ''object''"
| "typeof (JsBoolean b) = ''boolean''"
| "typeof (JsNumber k) = ''number''"
| "typeof (JsString s) = ''string''"
| "typeof (JsError m) = ''object''"
| "typeof (JsSassException e) = ''object''"

text \<open>\<^verbatim>\<open>'sassMessage' in error\<close>, evaluated on objects only.\<close>

fun hasSassMessage :: "js_thrown \<Rightarrow> bool" where
  "hasSassMessage (JsSassException e) = True"
| "hasSassMessage _ = False"

definition isSassException :: "js_thrown \<Rightarrow> bool" where
  "isSassException error = (truthy error \<and> typeof error = ''object'' \<and> hasSassMessage error)"

subsection \<open>The worker pool and \<^verbatim>\<open>shutdownSassWorkerPool\<close> (sass-language.ts, lines 19 to 28)\<close>

text \<open>
  A pool is \<^verbatim>\<open>new SassWorkerImplementation(rebase)\<close>. The state of the module is the
  variable \<^verbatim>\<open>sassWorkerPool\<close>, with the pools \<^verbatim>\<open>close()\<close> was called on, in order.
  \<^verbatim>\<open>close\<close> is a method of the pool, which is not part of the sources: it is a
  parameter that tells, for a pool, whether the call returns (\<open>None\<close>) or throws a
  value. The result of \<^verbatim>\<open>shutdownSassWorkerPool\<close> is the value thrown, if any, with the
  new state; when \<^verbatim>\<open>close\<close> throws, the assignment after it is not reached.
\<close>

datatype worker_pool = SassWorkerImplementation bool

record sass_module =
  sassWorkerPool :: "worker_pool option"
  closed :: "worker_pool list"

definition shutdownSassWorkerPool ::
  "(worker_pool \<Rightarrow> js_thrown option) \<Rightarrow> sass_module \<Rightarrow> js_thrown option \<times> sass_module" where
  "shutdownSassWorkerPool close m =
     (case sassWorkerPool m of
        None \<Rightarrow> (None, m\<lparr>sassWorkerPool := None\<rparr>)
      | Some pool \<Rightarrow>
          (case close pool of
             Some thrown \<Rightarrow> (Some thrown, m\<lparr>closed := closed m @ [pool]\<rparr>)
           | None \<Rightarrow> (None, m\<lparr>closed := closed m @ [pool], sassWorkerPool := None\<rparr>)))"

subsection \<open>The logger (sass-language.ts, lines 144 to 158)\<close>

record message_location =
  file' :: "string option"
  lineText :: "string option"
  line :: nat
  column :: nat

record message_note =
  note_text :: string

text \<open>The \<^verbatim>\<open>PartialMessage\<close> of the host bundler, with the properties the adapter sets.\<close>

record partial_message =
  msg_text :: string
  msg_location :: "message_location option"
  msg_notes :: "message_note list option"

record warn_options =
  deprecation :: bool
  warn_span :: "source_span option"

definition logger_warn :: "node \<Rightarrow> string \<Rightarrow> warn_options \<Rightarrow> partial_message" where
  "logger_warn n txt opts =
     \<lparr> msg_text = (if deprecation opts then ''Deprecation'' else txt),
       msg_location =
         (case warn_span opts of
            None \<Rightarrow> None
          | Some sp \<Rightarrow>
              Some \<lparr> file' = (case span_url sp of None \<Rightarrow> None
                                | Some u \<Rightarrow> Some (fileURLToPath n u)),
                     lineText = span_context sp,
                     line = start_line sp + 1,
                     column = start_column sp \<rparr>),
       msg_notes = (if deprecation opts then Some [\<lparr> note_text = txt \<rparr>] else None) \<rparr>"

text \<open>\<^verbatim>\<open>warnings.push\<close>, once for each call of the logger, in the order of the calls.\<close>

fun pushWarnings ::
  "node \<Rightarrow> partial_message list \<Rightarrow> (string \<times> warn_options) list \<Rightarrow> partial_message list" where
  "pushWarnings n warnings [] = warnings"
| "pushWarnings n warnings ((txt, opts) # rest) =
     pushWarnings n (warnings @ [logger_warn n txt opts]) rest"

subsection \<open>\<^verbatim>\<open>sourceMapToUrlComment\<close> (sass-language.ts, lines 187 to 198)\<close>

definition sourceMapToUrlComment :: "node \<Rightarrow> raw_source_map \<Rightarrow> string \<Rightarrow> string" where
  "sourceMapToUrlComment n sourceMap root =
     (let sourceMap' = sourceMap\<lparr>sources :=
            map (\<lambda>source. relative n root (fileURLToPath n source)) (sources sourceMap)\<rparr>;
          urlSourceMap = base64 n (json_stringify n sourceMap')
      in ''/*# sourceMappingURL=data:application/json;charset=utf-8;base64,'' @ urlSourceMap @ '' */'')"

subsection \<open>\<^verbatim>\<open>compileString\<close> (sass-language.ts, lines 64 to 185)\<close>

text \<open>The options the stylesheet plugin factory is created with.\<close>

record stylesheet_plugin_options =
  sourcemap :: bool
  includePaths :: "string list option"
  inlineComponentData :: "(string \<times> string) list option"
  browsers :: "string list"
  tailwindConfiguration :: "(string \<times> string) option"

text \<open>The options of \<^verbatim>\<open>compileStringAsync\<close>; the importer is \<^verbatim>\<open>findFileUrl\<close>.\<close>

record sass_options =
  entry_url :: string
  style :: string
  sass_syntax :: string
  loadPaths :: "string list option"
  sourceMap :: bool
  sourceMapIncludeSources :: bool
  quietDeps :: bool
  importer :: "string \<Rightarrow> string list option \<Rightarrow> string option"

record compile_result =
  css :: string
  result_sourceMap :: "raw_source_map option"
  loadedUrls :: "string list"

text \<open>
  One run of the engine, as the adapter sees it: the calls of \<^verbatim>\<open>logger.warn\<close> it
  made, in order, and how it ended, with a result or with a value thrown. The engine
  is a parameter: any function of the pool, the data and the options.
\<close>

record engine_run =
  logged :: "(string \<times> warn_options) list"
  outcome :: "js_thrown + compile_result"

type_synonym engine = "worker_pool \<Rightarrow> string \<Rightarrow> sass_options \<Rightarrow> engine_run"

record on_load_result =
  loader :: string
  contents :: "string option"
  errors :: "partial_message list option"
  warnings :: "partial_message list"
  watchFiles :: "string list option"

text \<open>Lines 72 to 75: the pool is created on the first compilation.\<close>

definition lazyPool :: "sass_module \<Rightarrow> worker_pool" where
  "lazyPool m = (case sassWorkerPool m of
                   None \<Rightarrow> SassWorkerImplementation True
                 | Some pool \<Rightarrow> pool)"

text \<open>Lines 80 to 143: the options the engine is called with.\<close>

definition compileOptions ::
  "node \<Rightarrow> string \<Rightarrow> string \<Rightarrow> stylesheet_plugin_options \<Rightarrow>
   (string \<Rightarrow> string list option \<Rightarrow> string \<times> resolve_call list) \<Rightarrow> sass_options" where
  "compileOptions n filePath syntax options resolveUrl' =
     \<lparr> entry_url = pathToFileURL n filePath,
       style = ''expanded'',
       sass_syntax = syntax,
       loadPaths = includePaths options,
       sourceMap = sourcemap options,
       sourceMapIncludeSources = sourcemap options,
       quietDeps = True,
       importer = (\<lambda>url previousResolvedModules.
          fst (findFileUrl n resolveUrl' url previousResolvedModules)) \<rparr>"

text \<open>
  The result is the value returned (\<open>Inr\<close>) or the value thrown (\<open>Inl\<close>), with the state
  of the module. In the \<^verbatim>\<open>catch\<close> clause the guard leaves the engine's \<^verbatim>\<open>Exception\<close>
  only, whose \<^verbatim>\<open>message\<close> and \<^verbatim>\<open>span\<close> are read.
\<close>

definition compileString ::
  "node \<Rightarrow> engine \<Rightarrow> sass_module \<Rightarrow> string \<Rightarrow> string \<Rightarrow> string \<Rightarrow> stylesheet_plugin_options \<Rightarrow>
   (string \<Rightarrow> string list option \<Rightarrow> string \<times> resolve_call list) \<Rightarrow>
   (js_thrown + on_load_result) \<times> sass_module" where
  "compileString n engine m data filePath syntax options resolveUrl' =
     (let pool = lazyPool m;
          m' = m\<lparr>sassWorkerPool := Some pool\<rparr>;
          run = engine pool data (compileOptions n filePath syntax options resolveUrl');
          warnings' = pushWarnings n [] (logged run)
      in (case outcome run of
            Inr result \<Rightarrow>
              Inr \<lparr> loader = ''css'',
                    contents = Some (case result_sourceMap result of
                        Some sm \<Rightarrow> css result @ [CHR 0x0A] @
                                   sourceMapToUrlComment n sm (dirname n filePath)
                      | None \<Rightarrow> css result),
                    errors = None,
                    warnings = warnings',
                    watchFiles = Some (map (fileURLToPath n) (loadedUrls result)) \<rparr>
          | Inl error \<Rightarrow>
              if isSassException error then
                (case error of
                   JsSassException e \<Rightarrow>
                     Inr \<lparr> loader = ''css'',
                           contents = None,
                           errors = Some [\<lparr> msg_text = message e, msg_location = None,
                                           msg_notes = None \<rparr>],
                           warnings = warnings',
                           watchFiles =
                             (let file = (case span_url (span e) of
                                            None \<Rightarrow> None
                                          | Some u \<Rightarrow> Some (fileURLToPath n u))
                              in case file of
                                   None \<Rightarrow> None
                                 | Some f \<Rightarrow> if f \<noteq> [] then Some [f] else None) \<rparr>
                 | _ \<Rightarrow> Inl error)
              else Inl error,
          m'))"

text \<open>\<^verbatim>\<open>SassStylesheetLanguage.process\<close> (lines 34 to 61).\<close>

definition process ::
  "node \<Rightarrow> engine \<Rightarrow> sass_module \<Rightarrow> string \<Rightarrow> string \<Rightarrow> string \<Rightarrow> stylesheet_plugin_options \<Rightarrow>
   build \<Rightarrow> (js_thrown + on_load_result) \<times> sass_module" where
  "process n engine m data fileName format options b =
     (let syntax = (if format = ''sass'' then ''indented'' else ''scss'')
      in compileString n engine m data fileName syntax options (resolveUrl b))"

section \<open>bundle-options.ts\<close>

subsection \<open>Options\<close>

datatype sourcemap_mode = SourcemapBoolean bool | SourcemapExternal | SourcemapInline

text \<open>\<^verbatim>\<open>!!options.sourcemap\<close>: the two strings are truthy.\<close>

fun sourcemap_truthy :: "sourcemap_mode \<Rightarrow> bool" where
  "sourcemap_truthy (SourcemapBoolean b) = b"
| "sourcemap_truthy SourcemapExternal = True"
| "sourcemap_truthy SourcemapInline = True"

record output_names =
  bundles :: "string option"
  media :: "string option"

text \<open>
  \<^verbatim>\<open>BundleStylesheetOptions\<close>. A field whose name another record of this theory has
  carries a prefix.
\<close>

record bundle_stylesheet_options =
  workspaceRoot :: string
  optimization :: bool
  preserveSymlinks :: "bool option"
  opt_sourcemap :: sourcemap_mode
  outputNames :: "output_names option"
  opt_includePaths :: "string list option"
  externalDependencies :: "string list option"
  target :: "string list"
  opt_browsers :: "string list"
  opt_tailwindConfiguration :: "(string \<times> string) option"

text \<open>The \<^verbatim>\<open>LoadResultCache\<close> is passed on to the plugins and never looked into.\<close>

typedecl load_result_cache

datatype stylesheet_language =
  SassStylesheetLanguage | LessStylesheetLanguage | CssStylesheetLanguage

record on_resolve_result =
  resolve_path :: string
  resolve_namespace :: "string option"

record component_load_result =
  load_contents :: string
  load_loader :: string
  load_resolveDir :: string

text \<open>
  A plugin: one the factory creates for a language, the resource plugin, or the
  plugin of the component stylesheet with its two hooks.
\<close>

datatype plugin =
  StylesheetPlugin stylesheet_language stylesheet_plugin_options "load_result_cache option"
| CssResourcePlugin "load_result_cache option"
| ComponentStylesPlugin "string \<Rightarrow> on_resolve_result option" component_load_result

record build_options =
  build_absWorkingDir :: string
  build_bundle :: bool
  entryNames :: "string option"
  assetNames :: "string option"
  logLevel :: string
  minify :: bool
  build_metafile :: bool
  build_sourcemap :: sourcemap_mode
  outdir :: string
  write' :: bool
  platform :: string
  build_target :: "string list"
  build_preserveSymlinks :: "bool option"
  external :: "string list option"
  conditions :: "string list"
  mainFields :: "string list"
  plugins :: "plugin list"
  entryPoints :: "string list option"

subsection \<open>\<^verbatim>\<open>createStylesheetBundleOptions\<close> (bundle-options.ts, lines 38 to 83)\<close>

definition createStylesheetBundleOptions ::
  "node \<Rightarrow> bundle_stylesheet_options \<Rightarrow> load_result_cache option \<Rightarrow>
   (string \<times> string) list option \<Rightarrow> build_options" where
  "createStylesheetBundleOptions n options cache inlineData =
     (let includePaths' =
            (case opt_includePaths options of
               None \<Rightarrow> None
             | Some ps \<Rightarrow> Some (map (\<lambda>includePath. path_resolve n (workspaceRoot options) includePath) ps));
          pluginOptions =
            \<lparr> sourcemap = sourcemap_truthy (opt_sourcemap options),
              includePaths = includePaths',
              inlineComponentData = inlineData,
              browsers = opt_browsers options,
              tailwindConfiguration = opt_tailwindConfiguration options \<rparr>
      in \<lparr> build_absWorkingDir = workspaceRoot options,
           build_bundle = True,
           entryNames = (case outputNames options of None \<Rightarrow> None | Some names' \<Rightarrow> bundles names'),
           assetNames = (case outputNames options of None \<Rightarrow> None | Some names' \<Rightarrow> media names'),
           logLevel = ''silent'',
           minify = optimization options,
           build_metafile = True,
           build_sourcemap = opt_sourcemap options,
           outdir = workspaceRoot options,
           write' = False,
           platform = ''browser'',
           build_target = target options,
           build_preserveSymlinks = preserveSymlinks options,
           external = externalDependencies options,
           conditions = [''style'', ''sass''],
           mainFields = [''style'', ''sass''],
           plugins = [StylesheetPlugin SassStylesheetLanguage pluginOptions cache,
                      StylesheetPlugin LessStylesheetLanguage pluginOptions cache,
                      StylesheetPlugin CssStylesheetLanguage pluginOptions cache,
                      CssResourcePlugin cache],
           entryPoints = None \<rparr>)"

subsection \<open>The identifier of a component stylesheet (bundle-options.ts, lines 23 and 107 to 112)\<close>

text \<open>
  The identifier is a hexadecimal digest or the value of the counter. The state of the
  module is \<^verbatim>\<open>componentStyleCounter\<close>, which starts at 0; it is a natural number here
  (a JavaScript number holds every integer below \<open>2 ^ 53\<close> exactly).
\<close>

datatype style_id = Digest string | Counter nat

definition componentStyleId :: "node \<Rightarrow> bool \<Rightarrow> string \<Rightarrow> nat \<Rightarrow> style_id \<times> nat" where
  "componentStyleId n inline data componentStyleCounter =
     (if inline then (Digest (sha256_hex n data), componentStyleCounter)
      else (Counter componentStyleCounter, componentStyleCounter + 1))"

fun id_string :: "style_id \<Rightarrow> string" where
  "id_string (Digest h) = h"
| "id_string (Counter k) = string_of_nat k"

definition componentEntry :: "string \<Rightarrow> style_id \<Rightarrow> string \<Rightarrow> string" where
  "componentEntry language id' filename = js_join '';'' [language, id_string id', filename]"

definition namespace :: string where
  "namespace = ''angular:styles/component''"

subsection \<open>The hooks of the plugin (bundle-options.ts, lines 116 to 143)\<close>

definition componentOnResolve :: "bool \<Rightarrow> string \<Rightarrow> string \<Rightarrow> string \<Rightarrow> on_resolve_result option" where
  "componentOnResolve inline entry filename kind =
     (if kind \<noteq> ''entry-point'' then None
      else if inline then Some \<lparr> resolve_path = entry, resolve_namespace = Some namespace \<rparr>
      else Some \<lparr> resolve_path = filename, resolve_namespace = None \<rparr>)"

definition componentOnLoad :: "node \<Rightarrow> string \<Rightarrow> string \<Rightarrow> component_load_result" where
  "componentOnLoad n data filename =
     \<lparr> load_contents = data, load_loader = ''css'', load_resolveDir = dirname n filename \<rparr>"

definition componentBuildOptions ::
  "node \<Rightarrow> string \<Rightarrow> string \<Rightarrow> string \<Rightarrow> bool \<Rightarrow> bundle_stylesheet_options \<Rightarrow>
   load_result_cache option \<Rightarrow> nat \<Rightarrow> build_options \<times> nat" where
  "componentBuildOptions n language data filename inline options cache componentStyleCounter =
     (let (id', counter') = componentStyleId n inline data componentStyleCounter;
          entry = componentEntry language id' filename;
          buildOptions = createStylesheetBundleOptions n options cache (Some [(entry, data)])
      in (buildOptions
            \<lparr> entryPoints := Some [namespace @ '';'' @ entry],
              plugins := plugins buildOptions @
                [ComponentStylesPlugin (componentOnResolve inline entry filename)
                   (componentOnLoad n data filename)] \<rparr>,
          counter'))"

subsection \<open>The result of the pass (bundle-options.ts, lines 145 to 189)\<close>

record output_file =
  file_path :: string
  file_text :: string

record metafile_output =
  entryPoint :: "string option"
  ng_component :: bool
  bytes :: nat

record metafile =
  inputs :: "string list"
  outputs :: "(string \<times> metafile_output) list"

text \<open>
  What \<^verbatim>\<open>context.bundle()\<close> resolves to: \<^verbatim>\<open>errors\<close> is \<^verbatim>\<open>undefined\<close> when the pass
  succeeded, and the output files and the metafile are read in that case only.
\<close>

record bundle_result =
  result_errors :: "partial_message list option"
  result_warnings :: "partial_message list"
  result_outputFiles :: "output_file list"
  result_metafile :: metafile

text \<open>\<^verbatim>\<open>new BundlerContext(workspaceRoot, false, buildOptions).bundle()\<close>, a parameter.\<close>

type_synonym bundler = "string \<Rightarrow> bool \<Rightarrow> build_options \<Rightarrow> bundle_result"

record extracted =
  ex_contents :: string
  ex_map :: "string option"
  ex_outputPath :: "string option"
  ex_resourceFiles :: "output_file list"

fun partitionOutputFiles :: "node \<Rightarrow> extracted \<Rightarrow> output_file list \<Rightarrow> extracted" where
  "partitionOutputFiles n e [] = e"
| "partitionOutputFiles n e (outputFile # rest) =
     (let filename = basename n (file_path outputFile) in
      if endsWith filename ''.css'' then
        partitionOutputFiles n
          (e\<lparr>ex_outputPath := Some (file_path outputFile), ex_contents := file_text outputFile\<rparr>) rest
      else if endsWith filename ''.css.map'' then
        partitionOutputFiles n (e\<lparr>ex_map := Some (file_text outputFile)\<rparr>) rest
      else
        partitionOutputFiles n (e\<lparr>ex_resourceFiles := ex_resourceFiles e @ [outputFile]\<rparr>) rest)"

definition stripEntryPoints :: "metafile \<Rightarrow> metafile" where
  "stripEntryPoints mf =
     mf\<lparr>outputs := map (\<lambda>(name, output). (name, output\<lparr>entryPoint := None, ng_component := True\<rparr>))
                      (outputs mf)\<rparr>"

record component_stylesheet =
  out_errors :: "partial_message list option"
  out_warnings :: "partial_message list"
  out_contents :: string
  out_map :: "string option"
  out_path :: "string option"
  out_resourceFiles :: "output_file list"
  out_metafile :: "metafile option"

definition componentResult :: "node \<Rightarrow> bundle_result \<Rightarrow> component_stylesheet" where
  "componentResult n result =
     (let initial = \<lparr> ex_contents = [], ex_map = None, ex_outputPath = None, ex_resourceFiles = [] \<rparr>;
          e = (if result_errors result = None
               then partitionOutputFiles n initial (result_outputFiles result)
               else initial);
          metafile' = (if result_errors result = None
                       then Some (stripEntryPoints (result_metafile result))
                       else None)
      in \<lparr> out_errors = result_errors result,
           out_warnings = result_warnings result,
           out_contents = ex_contents e,
           out_map = ex_map e,
           out_path = ex_outputPath e,
           out_resourceFiles = ex_resourceFiles e,
           out_metafile = metafile' \<rparr>)"

subsection \<open>\<^verbatim>\<open>bundleComponentStylesheet\<close> (bundle-options.ts, lines 99 to 190)\<close>

definition bundleComponentStylesheet ::
  "node \<Rightarrow> bundler \<Rightarrow> string \<Rightarrow> string \<Rightarrow> string \<Rightarrow> bool \<Rightarrow> bundle_stylesheet_options \<Rightarrow>
   load_result_cache option \<Rightarrow> nat \<Rightarrow> component_stylesheet \<times> nat" where
  "bundleComponentStylesheet n bundle language data filename inline options cache componentStyleCounter =
     (let (buildOptions, counter') =
            componentBuildOptions n language data filename inline options cache componentStyleCounter;
          result = bundle (workspaceRoot options) False buildOptions
      in (componentResult n result, counter'))"

section \<open>app-shell/index.ts\<close>

subsection \<open>\<^verbatim>\<open>getComponentTemplate\<close> (lines 58 to 88)\<close>

text \<open>
  A property assignment of the component's metadata: the text \<^verbatim>\<open>getFullText()\<close>
  returns, and the text of its initializer, a string literal.
\<close>

record property_assignment =
  getFullText :: string
  initializer_text :: string

record template_info =
  templateProp :: "property_assignment option"
  templateUrlProp :: "property_assignment option"

text \<open>
  The tree of the schematic: \<^verbatim>\<open>readText\<close> returns the text of a file or throws. The
  functions of \<^verbatim>\<open>@angular-devkit/core\<close> are parameters; \<^verbatim>\<open>normalize\<close> and \<^verbatim>\<open>join\<close> may
  throw on an invalid path.
\<close>

record devkit =
  readText :: "string \<Rightarrow> js_thrown + string"
  core_normalize :: "string \<Rightarrow> js_thrown + string"
  core_dirname :: "string \<Rightarrow> string"
  core_join :: "string \<Rightarrow> string \<Rightarrow> js_thrown + string"

text \<open>The result comes with the paths \<^verbatim>\<open>readText\<close> was called on, in order.\<close>

definition getComponentTemplate ::
  "devkit \<Rightarrow> string \<Rightarrow> template_info \<Rightarrow> (js_thrown + string) \<times> string list" where
  "getComponentTemplate host compPath tmplInfo =
     (let template = [] in
      case templateProp tmplInfo of
        Some prop \<Rightarrow> (Inr (getFullText prop), [])
      | None \<Rightarrow>
          (case templateUrlProp tmplInfo of
             None \<Rightarrow> (Inr template, [])
           | Some urlProp \<Rightarrow>
               (let templateUrl = initializer_text urlProp in
                case core_normalize host compPath of
                  Inl thrown \<Rightarrow> (Inl thrown, [])
                | Inr normalized \<Rightarrow>
                    (case core_join host (core_dirname host normalized) templateUrl of
                       Inl thrown \<Rightarrow> (Inl thrown, [])
                     | Inr templatePath \<Rightarrow>
                         (case readText host templatePath of
                            Inl thrown \<Rightarrow> (Inr template, [templatePath])
                          | Inr content \<Rightarrow> (Inr content, [templatePath]))))))"

section \<open>Definitions for the statements\<close>

subsection \<open>A sample environment\<close>

text \<open>
  Concrete library functions and a concrete resolver, on which the theorems are
  evaluated: paths are joined with a slash, a file URL is the path after
  \<^verbatim>\<open>file://\<close>. The digest, the encoder and the JSON printer are stand-ins: the length
  of the data in decimal, the reversal of the text, the sources joined by commas.
\<close>

definition sample_node :: node where
  "sample_node =
     \<lparr> pathToFileURL = (\<lambda>p. ''file://'' @ p),
       fileURLToPath = drop 7,
       dirname = (\<lambda>p. rev (tl (dropWhile (\<lambda>c. c \<noteq> CHR ''/'') (rev p)))),
       join = (\<lambda>segments. js_join ''/'' (filter (\<lambda>s. s \<noteq> []) segments)),
       relative = (\<lambda>root p. drop (length root + 1) p),
       basename = (\<lambda>p. rev (takeWhile (\<lambda>c. c \<noteq> CHR ''/'') (rev p))),
       path_resolve = (\<lambda>root p. root @ ''/'' @ p),
       sha256_hex = (\<lambda>data. string_of_nat (length data)),
       base64 = rev,
       json_stringify = (\<lambda>sm. js_join '','' (sources sm)) \<rparr>"

definition sample_build :: build where
  "sample_build =
     \<lparr> resolve = (\<lambda>specifier resolveDir.
          if specifier = ''pkg/a'' \<and> resolveDir = ''/prev'' then ''/prev/pkg/a.scss''
          else if specifier = ''pkg/package.json'' \<and> resolveDir = ''/root''
          then ''/root/node_modules/pkg/package.json''
          else if specifier = ''@s/lib/package.json'' \<and> resolveDir = ''/prev''
          then ''/prev/node_modules/@s/lib/package.json''
          else []),
       absWorkingDir = ''/root'' \<rparr>"

subsection \<open>The order of resolution\<close>

datatype attempt_kind = AsIs | DeepImport

type_synonym attempt = "attempt_kind \<times> string \<times> string"

text \<open>
  The attempts of the importer, in order: the kind, the specifier and the directory.
\<close>

definition attempts :: "build \<Rightarrow> string \<Rightarrow> string list option \<Rightarrow> attempt list" where
  "attempts b url previousResolvedModules =
     (let package = packageName (split CHR ''/'' url) @ ''/package.json'';
          primary = absWorkingDir b;
          previous = (case previousResolvedModules of None \<Rightarrow> [] | Some ps \<Rightarrow> ps)
      in [(AsIs, url, primary), (DeepImport, package, primary), (AsIs, url, primary)]
         @ map (\<lambda>d. (AsIs, url, d)) previous
         @ [(DeepImport, package, primary)]
         @ map (\<lambda>d. (DeepImport, package, d)) previous)"

text \<open>Trying a list of attempts in order, up to the first that resolves.\<close>

fun firstSuccess :: "build \<Rightarrow> attempt list \<Rightarrow> (attempt_kind \<times> string) option \<times> resolve_call list" where
  "firstSuccess b [] = (None, [])"
| "firstSuccess b ((k, s, d) # rest) =
     (if resolve b s d \<noteq> [] then (Some (k, resolve b s d), [(s, d)])
      else (let (r, calls) = firstSuccess b rest in (r, (s, d) # calls)))"

definition pathOf :: "(attempt_kind \<times> string) option \<Rightarrow> string" where
  "pathOf r = (case r of None \<Rightarrow> [] | Some (k, p) \<Rightarrow> p)"

definition finish :: "node \<Rightarrow> string \<Rightarrow> (attempt_kind \<times> string) option \<Rightarrow> string option" where
  "finish n url r =
     (case r of
        None \<Rightarrow> None
      | Some (AsIs, p) \<Rightarrow> Some (pathToFileURL n p)
      | Some (DeepImport, p) \<Rightarrow> Some (deepImportUrl n (split CHR ''/'' url) p))"

text \<open>
  The order the specification gives: the specifier against the primary directory, then
  against the previous directories, and the package fallback after both.
\<close>

definition findFileUrl_specified :: "node \<Rightarrow> build \<Rightarrow> string \<Rightarrow> string list option \<Rightarrow> string option" where
  "findFileUrl_specified n b url previousResolvedModules =
     (let (result, calls) = resolveUrl b url previousResolvedModules in
      if result \<noteq> [] then Some (pathToFileURL n result)
      else
        let parts = split CHR ''/'' url;
            (packageResult, calls') =
               resolveUrl b (packageName parts @ ''/package.json'') previousResolvedModules
        in if packageResult \<noteq> [] then Some (deepImportUrl n parts packageResult) else None)"

subsection \<open>Compilation: warnings, errors and the source map\<close>

text \<open>A sample engine: it logs a deprecation and a plain warning, then ends as told.\<close>

definition sample_span :: source_span where
  "sample_span = \<lparr> span_url = Some ''file:///root/src/a.scss'', span_context = Some ''a { b: c }'',
                    start_line = 4, start_column = 2 \<rparr>"

definition sample_engine :: "(js_thrown + compile_result) \<Rightarrow> engine" where
  "sample_engine end' pool data opts =
     \<lparr> logged = [(''slash-div is deprecated'', \<lparr> deprecation = True, warn_span = Some sample_span \<rparr>),
                 (''unused rule'', \<lparr> deprecation = False, warn_span = None \<rparr>)],
       outcome = end' \<rparr>"

definition sample_exception :: sass_exception where
  "sample_exception = \<lparr> message = ''expected \"{\".'', sassMessage = ''expected \"{\".'',
                         sassStack = [], span = sample_span \<rparr>"

definition sample_options :: stylesheet_plugin_options where
  "sample_options = \<lparr> sourcemap = True, includePaths = None, inlineComponentData = None,
                       browsers = [], tailwindConfiguration = None \<rparr>"

definition sample_module :: sass_module where
  "sample_module = \<lparr> sassWorkerPool = None, closed = [] \<rparr>"

definition sample_map :: raw_source_map where
  "sample_map = \<lparr> version = 3, sources = [''file:///root/src/a.scss'', ''file:///root/src/lib/b.scss''],
                   names = [], mappings = ''AAAA'', sourcesContent = None \<rparr>"

subsection \<open>Identifiers of component stylesheets\<close>

text \<open>
  A session: the calls of \<^verbatim>\<open>bundleComponentStylesheet\<close> made one after the other, each
  on the counter the call before it left. The result is the list of what the calls
  returned, with the counter after the last one.
\<close>

record stylesheet_call =
  call_language :: string
  call_data :: string
  call_filename :: string
  call_inline :: bool
  call_options :: bundle_stylesheet_options
  call_cache :: "load_result_cache option"

fun session ::
  "node \<Rightarrow> bundler \<Rightarrow> nat \<Rightarrow> stylesheet_call list \<Rightarrow> component_stylesheet list \<times> nat" where
  "session n bundler' counter [] = ([], counter)"
| "session n bundler' counter (x # rest) =
     (let (out, counter') =
            bundleComponentStylesheet n bundler' (call_language x) (call_data x) (call_filename x)
              (call_inline x) (call_options x) (call_cache x) counter;
          (outs, counter'') = session n bundler' counter' rest
      in (out # outs, counter''))"

text \<open>
  A bundler that makes its input visible: the pass succeeds with no output, and warns
  once for each entry point it was given, with the entry point as the text.
\<close>

definition reporting_bundler :: bundler where
  "reporting_bundler root rebuild buildOptions =
     \<lparr> result_errors = None,
       result_warnings =
         map (\<lambda>entryPoint'. \<lparr> msg_text = entryPoint', msg_location = None, msg_notes = None \<rparr>)
           (case entryPoints buildOptions of None \<Rightarrow> [] | Some points \<Rightarrow> points),
       result_outputFiles = [],
       result_metafile = \<lparr> inputs = [], outputs = [] \<rparr> \<rparr>"

definition sample_bundle_options :: bundle_stylesheet_options where
  "sample_bundle_options =
     \<lparr> workspaceRoot = ''/root'', optimization = False, preserveSymlinks = None,
       opt_sourcemap = SourcemapBoolean False, outputNames = None, opt_includePaths = None,
       externalDependencies = None, target = [], opt_browsers = [],
       opt_tailwindConfiguration = None \<rparr>"

definition sample_calls :: "stylesheet_call list" where
  "sample_calls =
     [\<lparr> call_language = ''scss'', call_data = ''a {}'', call_filename = ''/root/src/a.scss'',
         call_inline = False, call_options = sample_bundle_options, call_cache = None \<rparr>,
      \<lparr> call_language = ''css'', call_data = ''b {}'', call_filename = ''/root/src/b.ts'',
         call_inline = True, call_options = sample_bundle_options, call_cache = None \<rparr>,
      \<lparr> call_language = ''scss'', call_data = ''a {}'', call_filename = ''/root/src/a.scss'',
         call_inline = False, call_options = sample_bundle_options, call_cache = None \<rparr>]"

definition sample_devkit :: devkit where
  "sample_devkit =
     \<lparr> readText = (\<lambda>path. if path = ''/src/app/app.component.html'' then Inr ''<router-outlet />''
                           else Inl (JsError ''Path does not exist.'')),
       core_normalize = (\<lambda>path. Inr path),
       core_dirname = (\<lambda>path. rev (tl (dropWhile (\<lambda>c. c \<noteq> CHR ''/'') (rev path)))),
       core_join = (\<lambda>dir path. Inr (dir @ ''/'' @ path)) \<rparr>"

definition sample_failure :: bundle_result where
  "sample_failure =
     \<lparr> result_errors = Some [\<lparr> msg_text = ''Could not resolve \"missing-pkg/_x\"'',
                                msg_location = None, msg_notes = None \<rparr>],
       result_warnings = [],
       result_outputFiles = [\<lparr> file_path = ''/root/out.css'', file_text = ''a{}'' \<rparr>],
       result_metafile = \<lparr> inputs = [], outputs = [] \<rparr> \<rparr>"

section \<open>Theorems\<close>

subsection \<open>The order of resolution\<close>

lemma firstSuccess_append:
  "firstSuccess b (xs @ ys) =
     (case firstSuccess b xs of
        (Some r, calls) \<Rightarrow> (Some r, calls)
      | (None, calls) \<Rightarrow> (let (r, calls') = firstSuccess b ys in (r, calls @ calls')))"
  by (induction xs) (auto split: prod.splits option.splits)

lemma firstSuccess_path_nonempty:
  "firstSuccess b xs = (Some (k, p), calls) \<Longrightarrow> p \<noteq> []"
  by (induction xs arbitrary: calls) (auto split: if_splits prod.splits)

lemma firstSuccess_kind:
  "firstSuccess b (map (\<lambda>d. (k0, u, d)) ps) = (Some (k, p), calls) \<Longrightarrow> k = k0"
  by (induction ps arbitrary: calls) (auto split: if_splits prod.splits)

lemma firstSuccess_all_fail:
  "list_all (\<lambda>(k, s, d). resolve b s d = []) xs \<Longrightarrow>
   firstSuccess b xs = (None, map snd xs)"
  by (induction xs) auto

lemma resolvePrevious_firstSuccess:
  "resolvePrevious b url ps [] =
     (case firstSuccess b (map (\<lambda>d. (k, url, d)) ps) of (r, calls) \<Rightarrow> (pathOf r, calls))"
  by (induction ps) (auto simp: pathOf_def Let_def split: prod.splits option.splits)

lemma resolveUrl_firstSuccess:
  "resolveUrl b url prev =
     (case firstSuccess b ((k, url, absWorkingDir b) #
              map (\<lambda>d. (k, url, d)) (case prev of None \<Rightarrow> [] | Some ps \<Rightarrow> ps)) of
        (r, calls) \<Rightarrow> (pathOf r, calls))"
  by (cases prev)
     (auto simp: resolveUrl_def Let_def pathOf_def resolvePrevious_firstSuccess [where k = k]
           split: prod.splits option.splits list.splits)

lemma findFileUrl_firstSuccess:
  "findFileUrl n (resolveUrl b) url prev =
     (case firstSuccess b (attempts b url prev) of (r, calls) \<Rightarrow> (finish n url r, calls))"
proof -
  let ?wd = "absWorkingDir b"
  let ?pkg = "packageName (split CHR ''/'' url) @ ''/package.json''"
  let ?ps = "case prev of None \<Rightarrow> [] | Some ps \<Rightarrow> ps"
  have split_attempts: "attempts b url prev =
      [(AsIs, url, ?wd)] @ [(DeepImport, ?pkg, ?wd)]
      @ ((AsIs, url, ?wd) # map (\<lambda>d. (AsIs, url, d)) ?ps)
      @ ((DeepImport, ?pkg, ?wd) # map (\<lambda>d. (DeepImport, ?pkg, d)) ?ps)"
    by (simp add: attempts_def Let_def)
  have r1: "resolveUrl b url None =
      (case firstSuccess b [(AsIs, url, ?wd)] of (r, calls) \<Rightarrow> (pathOf r, calls))"
    using resolveUrl_firstSuccess [of b url None AsIs] by simp
  have r2: "resolveUrl b ?pkg None =
      (case firstSuccess b [(DeepImport, ?pkg, ?wd)] of (r, calls) \<Rightarrow> (pathOf r, calls))"
    using resolveUrl_firstSuccess [of b ?pkg None DeepImport] by simp
  note r3 = resolveUrl_firstSuccess [of b url prev AsIs]
  note r4 = resolveUrl_firstSuccess [of b ?pkg prev DeepImport]
  show ?thesis
    unfolding split_attempts firstSuccess_append findFileUrl_def Let_def r1 r2 r3 r4
    by (auto simp: pathOf_def finish_def split: prod.splits option.splits attempt_kind.splits
             dest: firstSuccess_path_nonempty firstSuccess_kind)
qed

text \<open>
  C1, as amended. The importer is a search for the first attempt that resolves, over
  this list, in this order: the specifier against the primary directory; the
  \<^verbatim>\<open>package.json\<close> of the package against the primary directory; the specifier against
  the primary directory again and then against each previous directory; the
  \<^verbatim>\<open>package.json\<close> against the primary directory again and then against each previous
  directory. It stops at the first success, and the calls it made are the attempts up
  to that one. When every attempt fails the result is the not-found value, after all
  the attempts; no value is thrown.
\<close>

theorem findFileUrl_order:
  "findFileUrl n (resolveUrl b) url prev =
     (case firstSuccess b (attempts b url prev) of (r, calls) \<Rightarrow> (finish n url r, calls))
   \<and> (list_all (\<lambda>(k, s, d). resolve b s d = []) (attempts b url prev) \<longrightarrow>
        findFileUrl n (resolveUrl b) url prev = (None, map snd (attempts b url prev)))"
  by (simp add: findFileUrl_firstSuccess firstSuccess_all_fail finish_def)

theorem findFileUrl_order_witness:
  "list_all (\<lambda>(k, s, d). resolve sample_build s d = [])
     (attempts sample_build ''missing/x'' (Some [''/prev'']))
   \<and> findFileUrl sample_node (resolveUrl sample_build) ''missing/x'' (Some [''/prev'']) =
       (None, [(''missing/x'', ''/root''), (''missing/package.json'', ''/root''),
               (''missing/x'', ''/root''), (''missing/x'', ''/prev''),
               (''missing/package.json'', ''/root''), (''missing/package.json'', ''/prev'')])"
proof -
  have fails: "list_all (\<lambda>(k, s, d). resolve sample_build s d = [])
      (attempts sample_build ''missing/x'' (Some [''/prev'']))"
    by (simp add: attempts_def Let_def sample_build_def packageName_def hasScope_def
          startsWith_def nameOrScope_def nameOrFirstPath_def)
  with findFileUrl_order [of sample_node sample_build "''missing/x''" "Some [''/prev'']"]
  have "findFileUrl sample_node (resolveUrl sample_build) ''missing/x'' (Some [''/prev'']) =
      (None, map snd (attempts sample_build ''missing/x'' (Some [''/prev''])))"
    by blast
  then show ?thesis
    using fails
    by (simp add: attempts_def Let_def packageName_def hasScope_def startsWith_def
          nameOrScope_def nameOrFirstPath_def sample_build_def)
qed

text \<open>
  C1, as stated, fails: a specifier that a previous directory resolves is given to the
  package fallback first, when the primary directory resolves the \<^verbatim>\<open>package.json\<close>.
\<close>

theorem findFileUrl_order_counterexample:
  "findFileUrl sample_node (resolveUrl sample_build) ''pkg/a'' (Some [''/prev'']) =
     (Some ''file:///root/node_modules/pkg/a'',
      [(''pkg/a'', ''/root''), (''pkg/package.json'', ''/root'')])
   \<and> findFileUrl_specified sample_node sample_build ''pkg/a'' (Some [''/prev'']) =
       Some ''file:///prev/pkg/a.scss''"
  by (simp add: findFileUrl_def findFileUrl_specified_def resolveUrl_def sample_build_def
        sample_node_def packageName_def hasScope_def startsWith_def nameOrScope_def
        nameOrFirstPath_def deepImportUrl_def deepImportSegments_def pathPart_def)

subsection \<open>The package deep import\<close>

lemma split_not_Nil: "split c s \<noteq> []"
  by (induction s) (auto split: list.splits)

lemma js_join_Cons: "rest \<noteq> [] \<Longrightarrow> js_join sep (x # rest) = x @ sep @ js_join sep rest"
  by (cases rest) auto

lemma js_join_split: "js_join [c] (split c s) = s"
proof (induction s)
  case Nil
  show ?case by simp
next
  case (Cons x xs)
  show ?case
  proof (cases "x = c")
    case True
    with Cons show ?thesis by (simp add: js_join_Cons split_not_Nil)
  next
    case False
    obtain p ps where sp: "split c xs = p # ps"
      using split_not_Nil [of c xs] by (cases "split c xs") auto
    with Cons False show ?thesis by (cases ps) auto
  qed
qed

lemma split_no_separator: "p \<in> set (split c s) \<Longrightarrow> c \<notin> set p"
  by (induction s arbitrary: p) (auto split: if_splits list.splits)

lemma packageName_take:
  "parts \<noteq> [] \<Longrightarrow>
   packageName parts = js_join ''/'' (take (if hasScope parts then 2 else 1) parts)"
  by (cases parts; cases "tl parts")
     (auto simp: packageName_def hasScope_def nameOrScope_def nameOrFirstPath_def)

lemma deepImportSegments_filter:
  "parts \<noteq> [] \<Longrightarrow>
   filter (\<lambda>s. s \<noteq> []) (deepImportSegments parts) =
   filter (\<lambda>s. s \<noteq> []) (drop (if hasScope parts then 2 else 1) parts)"
  by (cases parts; cases "tl parts")
     (auto simp: deepImportSegments_def hasScope_def nameOrFirstPath_def pathPart_def)

lemma resolveUrl_None: "resolveUrl b u None = (resolve b u (absWorkingDir b), [(u, absWorkingDir b)])"
  by (simp add: resolveUrl_def)

text \<open>
  C2. For a specifier the primary directory does not resolve, with \<open>parts\<close> its split on
  the slash: the package name is the first part, or the first two parts joined by a
  slash when there are two and the first starts with \<^verbatim>\<open>@\<close>; the parts joined again are
  the specifier; when \<^verbatim>\<open>package.json\<close> of the package resolves, against the primary
  directory or else (once the specifier has failed in all directories) against a
  previous one, the result is the file URL of the join of the directory of that
  \<^verbatim>\<open>package.json\<close> with segments that are, empty ones apart, the parts after the
  package name.
\<close>

theorem findFileUrl_deep_import:
  assumes "resolve b url (absWorkingDir b) = []"
    and "parts = split CHR ''/'' url"
    and "k = (if 2 \<le> length parts \<and> startsWith (hd parts) ''@'' then 2 else 1)"
    and "package = packageName parts @ ''/package.json''"
  shows "js_join ''/'' parts = url
    \<and> packageName parts = js_join ''/'' (take k parts)
    \<and> filter (\<lambda>s. s \<noteq> []) (deepImportSegments parts) = filter (\<lambda>s. s \<noteq> []) (drop k parts)
    \<and> (resolve b package (absWorkingDir b) \<noteq> [] \<longrightarrow>
         fst (findFileUrl n (resolveUrl b) url prev) =
           Some (pathToFileURL n (join n
              (dirname n (resolve b package (absWorkingDir b)) # deepImportSegments parts))))
    \<and> (resolve b package (absWorkingDir b) = [] \<and> fst (resolveUrl b url prev) = [] \<and>
         fst (resolveUrl b package prev) \<noteq> [] \<longrightarrow>
         fst (findFileUrl n (resolveUrl b) url prev) =
           Some (pathToFileURL n (join n
              (dirname n (fst (resolveUrl b package prev)) # deepImportSegments parts))))"
proof -
  have ne: "parts \<noteq> []" using assms(2) by (simp add: split_not_Nil)
  have k: "k = (if hasScope parts then 2 else 1)" using assms(3) by (simp add: hasScope_def)
  have 1: "js_join ''/'' parts = url" using assms(2) js_join_split [of "CHR ''/''" url] by simp
  have 2: "packageName parts = js_join ''/'' (take k parts)"
    unfolding k by (rule packageName_take [OF ne])
  have 3: "filter (\<lambda>s. s \<noteq> []) (deepImportSegments parts) = filter (\<lambda>s. s \<noteq> []) (drop k parts)"
    unfolding k by (rule deepImportSegments_filter [OF ne])
  have 4: "resolve b package (absWorkingDir b) \<noteq> [] \<longrightarrow>
         fst (findFileUrl n (resolveUrl b) url prev) =
           Some (pathToFileURL n (join n
              (dirname n (resolve b package (absWorkingDir b)) # deepImportSegments parts)))"
    using assms(1,2,4)
    by (simp add: findFileUrl_def resolveUrl_None deepImportUrl_def Let_def split: prod.splits)
  have 5: "resolve b package (absWorkingDir b) = [] \<and> fst (resolveUrl b url prev) = [] \<and>
         fst (resolveUrl b package prev) \<noteq> [] \<longrightarrow>
         fst (findFileUrl n (resolveUrl b) url prev) =
           Some (pathToFileURL n (join n
              (dirname n (fst (resolveUrl b package prev)) # deepImportSegments parts)))"
    using assms(1,2,4)
    by (auto simp: findFileUrl_def resolveUrl_None deepImportUrl_def Let_def split: prod.splits)
  from 1 2 3 4 5 show ?thesis by blast
qed

theorem findFileUrl_deep_import_witness:
  "resolve sample_build ''pkg/a'' (absWorkingDir sample_build) = []
   \<and> split CHR ''/'' ''pkg/a'' = [''pkg'', ''a'']
   \<and> packageName [''pkg'', ''a''] = ''pkg''
   \<and> resolve sample_build ''pkg/package.json'' (absWorkingDir sample_build) =
       ''/root/node_modules/pkg/package.json''
   \<and> fst (findFileUrl sample_node (resolveUrl sample_build) ''pkg/a'' None) =
       Some ''file:///root/node_modules/pkg/a''
   \<and> resolve sample_build ''@s/lib/x/y'' (absWorkingDir sample_build) = []
   \<and> split CHR ''/'' ''@s/lib/x/y'' = [''@s'', ''lib'', ''x'', ''y'']
   \<and> packageName [''@s'', ''lib'', ''x'', ''y''] = ''@s/lib''
   \<and> resolve sample_build ''@s/lib/package.json'' (absWorkingDir sample_build) = []
   \<and> fst (resolveUrl sample_build ''@s/lib/x/y'' (Some [''/prev''])) = []
   \<and> fst (resolveUrl sample_build ''@s/lib/package.json'' (Some [''/prev''])) =
       ''/prev/node_modules/@s/lib/package.json''
   \<and> fst (findFileUrl sample_node (resolveUrl sample_build) ''@s/lib/x/y'' (Some [''/prev''])) =
       Some ''file:///prev/node_modules/@s/lib/x/y''"
proof -
  have a1: "resolve sample_build ''pkg/a'' (absWorkingDir sample_build) = []"
    by (simp add: sample_build_def)
  have a2: "split CHR ''/'' ''pkg/a'' = [''pkg'', ''a'']" by simp
  have a3: "packageName [''pkg'', ''a''] = ''pkg''"
    by (simp add: packageName_def hasScope_def startsWith_def nameOrScope_def)
  have a4: "resolve sample_build ''pkg/package.json'' (absWorkingDir sample_build) =
       ''/root/node_modules/pkg/package.json''"
    by (simp add: sample_build_def)
  have a5: "fst (findFileUrl sample_node (resolveUrl sample_build) ''pkg/a'' None) =
       Some ''file:///root/node_modules/pkg/a''"
    using findFileUrl_deep_import [OF a1 a2 [symmetric] refl refl, of sample_node None] a3 a4
    by (simp add: sample_node_def deepImportSegments_def nameOrFirstPath_def hasScope_def
          startsWith_def pathPart_def)
  have b1: "resolve sample_build ''@s/lib/x/y'' (absWorkingDir sample_build) = []"
    by (simp add: sample_build_def)
  have b2: "split CHR ''/'' ''@s/lib/x/y'' = [''@s'', ''lib'', ''x'', ''y'']" by simp
  have b3: "packageName [''@s'', ''lib'', ''x'', ''y''] = ''@s/lib''"
    by (simp add: packageName_def hasScope_def startsWith_def nameOrScope_def nameOrFirstPath_def)
  have b4: "resolve sample_build ''@s/lib/package.json'' (absWorkingDir sample_build) = []"
    by (simp add: sample_build_def)
  have b5: "fst (resolveUrl sample_build ''@s/lib/x/y'' (Some [''/prev''])) = []"
    by (simp add: resolveUrl_def sample_build_def)
  have b6: "fst (resolveUrl sample_build ''@s/lib/package.json'' (Some [''/prev''])) =
       ''/prev/node_modules/@s/lib/package.json''"
    by (simp add: resolveUrl_def sample_build_def)
  have b7: "fst (findFileUrl sample_node (resolveUrl sample_build) ''@s/lib/x/y'' (Some [''/prev''])) =
       Some ''file:///prev/node_modules/@s/lib/x/y''"
    using findFileUrl_deep_import [OF b1 b2 [symmetric] refl refl, of sample_node "Some [''/prev'']"]
      b3 b4 b5 b6
    by (simp add: sample_node_def deepImportSegments_def nameOrFirstPath_def hasScope_def
          startsWith_def pathPart_def)
  from a1 a2 a3 a4 a5 b1 b2 b3 b4 b5 b6 b7 show ?thesis by blast
qed

subsection \<open>Compilation: warnings, errors and the source map\<close>

lemma pushWarnings_map:
  "pushWarnings n ws logs = ws @ map (\<lambda>(txt, opts). logger_warn n txt opts) logs"
  by (induction logs arbitrary: ws) auto

lemma isSassException_iff: "isSassException thrown = (\<exists>e. thrown = JsSassException e)"
  by (cases thrown) (simp_all add: isSassException_def)

text \<open>
  C3. When the engine throws a value with the shape of a Sass exception, that value is
  the engine's exception and \<^verbatim>\<open>compileString\<close> returns: one error with the message of
  the exception, the warnings logged before, and as watch files the path of the
  exception's span when the span has a URL (whose path, as every path, is not the
  empty string), none otherwise. Every other value thrown is thrown by
  \<^verbatim>\<open>compileString\<close> unchanged.
\<close>

theorem compileString_exception:
  assumes "engine (lazyPool m) data (compileOptions n filePath syn options r) = run"
    and "outcome run = Inl thrown"
  shows "(isSassException thrown \<longrightarrow>
           (\<exists>e res. thrown = JsSassException e
             \<and> fst (compileString n engine m data filePath syn options r) = Inr res
             \<and> loader res = ''css'' \<and> contents res = None
             \<and> errors res = Some [\<lparr> msg_text = message e, msg_location = None, msg_notes = None \<rparr>]
             \<and> warnings res = map (\<lambda>(txt, opts). logger_warn n txt opts) (logged run)
             \<and> (\<forall>u. span_url (span e) = Some u \<and> fileURLToPath n u \<noteq> [] \<longrightarrow>
                   watchFiles res = Some [fileURLToPath n u])
             \<and> (span_url (span e) = None \<longrightarrow> watchFiles res = None)))
       \<and> (\<not> isSassException thrown \<longrightarrow>
           fst (compileString n engine m data filePath syn options r) = Inl thrown)"
  using assms
  by (auto simp: compileString_def Let_def pushWarnings_map isSassException_iff)

theorem compileString_exception_witness:
  "outcome (sample_engine (Inl (JsSassException sample_exception)) (lazyPool sample_module) ''a {''
      (compileOptions sample_node ''/root/src/a.scss'' ''scss'' sample_options (resolveUrl sample_build)))
     = Inl (JsSassException sample_exception)
   \<and> isSassException (JsSassException sample_exception)
   \<and> fst (compileString sample_node (sample_engine (Inl (JsSassException sample_exception)))
        sample_module ''a {'' ''/root/src/a.scss'' ''scss'' sample_options (resolveUrl sample_build)) =
       Inr \<lparr> loader = ''css'', contents = None,
             errors = Some [\<lparr> msg_text = ''expected \"{\".'', msg_location = None, msg_notes = None \<rparr>],
             warnings =
               [\<lparr> msg_text = ''Deprecation'',
                   msg_location = Some \<lparr> file' = Some ''/root/src/a.scss'',
                                         lineText = Some ''a { b: c }'', line = 5, column = 2 \<rparr>,
                   msg_notes = Some [\<lparr> note_text = ''slash-div is deprecated'' \<rparr>] \<rparr>,
                \<lparr> msg_text = ''unused rule'', msg_location = None, msg_notes = None \<rparr>],
             watchFiles = Some [''/root/src/a.scss''] \<rparr>
   \<and> outcome (sample_engine (Inl (JsError ''out of memory'')) (lazyPool sample_module) ''a {''
      (compileOptions sample_node ''/root/src/a.scss'' ''scss'' sample_options (resolveUrl sample_build)))
     = Inl (JsError ''out of memory'')
   \<and> \<not> isSassException (JsError ''out of memory'')
   \<and> fst (compileString sample_node (sample_engine (Inl (JsError ''out of memory'')))
        sample_module ''a {'' ''/root/src/a.scss'' ''scss'' sample_options (resolveUrl sample_build)) =
       Inl (JsError ''out of memory'')"
proof -
  let ?opts = "compileOptions sample_node ''/root/src/a.scss'' ''scss'' sample_options (resolveUrl sample_build)"
  have o1: "outcome (sample_engine (Inl (JsSassException sample_exception)) (lazyPool sample_module)
      ''a {'' ?opts) = Inl (JsSassException sample_exception)"
    by (simp add: sample_engine_def)
  have s1: "isSassException (JsSassException sample_exception)"
    by (simp add: isSassException_def)
  have o2: "outcome (sample_engine (Inl (JsError ''out of memory'')) (lazyPool sample_module)
      ''a {'' ?opts) = Inl (JsError ''out of memory'')"
    by (simp add: sample_engine_def)
  have s2: "\<not> isSassException (JsError ''out of memory'')"
    by (simp add: isSassException_def)
  note t1 = compileString_exception
      [where engine = "sample_engine (Inl (JsSassException sample_exception))"
         and m = sample_module and data = "''a {''" and n = sample_node
         and filePath = "''/root/src/a.scss''" and syn = "''scss''"
         and options = sample_options and r = "resolveUrl sample_build", OF refl o1]
  note t2 = compileString_exception
      [where engine = "sample_engine (Inl (JsError ''out of memory''))"
         and m = sample_module and data = "''a {''" and n = sample_node
         and filePath = "''/root/src/a.scss''" and syn = "''scss''"
         and options = sample_options and r = "resolveUrl sample_build", OF refl o2]
  have r1: "fst (compileString sample_node (sample_engine (Inl (JsSassException sample_exception)))
        sample_module ''a {'' ''/root/src/a.scss'' ''scss'' sample_options (resolveUrl sample_build)) =
       Inr \<lparr> loader = ''css'', contents = None,
             errors = Some [\<lparr> msg_text = ''expected \"{\".'', msg_location = None, msg_notes = None \<rparr>],
             warnings =
               [\<lparr> msg_text = ''Deprecation'',
                   msg_location = Some \<lparr> file' = Some ''/root/src/a.scss'',
                                         lineText = Some ''a { b: c }'', line = 5, column = 2 \<rparr>,
                   msg_notes = Some [\<lparr> note_text = ''slash-div is deprecated'' \<rparr>] \<rparr>,
                \<lparr> msg_text = ''unused rule'', msg_location = None, msg_notes = None \<rparr>],
             watchFiles = Some [''/root/src/a.scss''] \<rparr>"
    using t1 s1
    by (simp add: compileString_def Let_def pushWarnings_map sample_engine_def
          sample_exception_def sample_span_def logger_warn_def sample_node_def)
  have r2: "fst (compileString sample_node (sample_engine (Inl (JsError ''out of memory'')))
        sample_module ''a {'' ''/root/src/a.scss'' ''scss'' sample_options (resolveUrl sample_build)) =
       Inl (JsError ''out of memory'')"
    using t2 s2 by simp
  from o1 s1 r1 o2 s2 r2 show ?thesis by blast
qed

text \<open>
  C4. Whenever \<^verbatim>\<open>compileString\<close> returns, its warnings are the messages the engine
  logged, one for each and in order, and its errors are absent or the one error of the
  exception. The location of a message with a span has the line of the span plus one;
  a deprecation has the text \<^verbatim>\<open>Deprecation\<close> and the logged text as its only note, any
  other message keeps its text and has no note.
\<close>

theorem compileString_warnings:
  assumes "engine (lazyPool m) data (compileOptions n filePath syn options r) = run"
    and "fst (compileString n engine m data filePath syn options r) = Inr res"
  shows "warnings res = map (\<lambda>(txt, opts). logger_warn n txt opts) (logged run)
    \<and> length (warnings res) = length (logged run)
    \<and> (errors res = None \<or>
        (\<exists>e. outcome run = Inl (JsSassException e) \<and>
             errors res = Some [\<lparr> msg_text = message e, msg_location = None, msg_notes = None \<rparr>]))
    \<and> (\<forall>i < length (logged run).
          let txt = fst (logged run ! i); opts = snd (logged run ! i); w = warnings res ! i in
            (\<forall>sp. warn_span opts = Some sp \<longrightarrow>
               (\<exists>loc. msg_location w = Some loc \<and> line loc = start_line sp + 1
                  \<and> column loc = start_column sp \<and> lineText loc = span_context sp))
          \<and> (warn_span opts = None \<longrightarrow> msg_location w = None)
          \<and> (deprecation opts \<longrightarrow>
               msg_text w = ''Deprecation'' \<and> msg_notes w = Some [\<lparr> note_text = txt \<rparr>])
          \<and> (\<not> deprecation opts \<longrightarrow> msg_text w = txt \<and> msg_notes w = None))"
proof -
  have w: "warnings res = map (\<lambda>(txt, opts). logger_warn n txt opts) (logged run)"
    using assms
    by (auto simp: compileString_def Let_def pushWarnings_map
             split: sum.splits if_splits js_thrown.splits)
  have e: "errors res = None \<or>
        (\<exists>e. outcome run = Inl (JsSassException e) \<and>
             errors res = Some [\<lparr> msg_text = message e, msg_location = None, msg_notes = None \<rparr>])"
    using assms
    by (auto simp: compileString_def Let_def split: sum.splits if_splits js_thrown.splits)
  have each: "\<forall>i < length (logged run).
          let txt = fst (logged run ! i); opts = snd (logged run ! i); w = warnings res ! i in
            (\<forall>sp. warn_span opts = Some sp \<longrightarrow>
               (\<exists>loc. msg_location w = Some loc \<and> line loc = start_line sp + 1
                  \<and> column loc = start_column sp \<and> lineText loc = span_context sp))
          \<and> (warn_span opts = None \<longrightarrow> msg_location w = None)
          \<and> (deprecation opts \<longrightarrow>
               msg_text w = ''Deprecation'' \<and> msg_notes w = Some [\<lparr> note_text = txt \<rparr>])
          \<and> (\<not> deprecation opts \<longrightarrow> msg_text w = txt \<and> msg_notes w = None)"
    unfolding w by (simp add: Let_def logger_warn_def case_prod_beta)
  from w e each show ?thesis by simp
qed

theorem compileString_warnings_witness:
  "fst (compileString sample_node
      (sample_engine (Inr \<lparr> css = ''a{}'', result_sourceMap = None, loadedUrls = [] \<rparr>))
      sample_module ''a {}'' ''/root/src/a.scss'' ''scss'' sample_options (resolveUrl sample_build)) =
     Inr \<lparr> loader = ''css'', contents = Some ''a{}'', errors = None,
           warnings =
             [\<lparr> msg_text = ''Deprecation'',
                 msg_location = Some \<lparr> file' = Some ''/root/src/a.scss'',
                                       lineText = Some ''a { b: c }'', line = 5, column = 2 \<rparr>,
                 msg_notes = Some [\<lparr> note_text = ''slash-div is deprecated'' \<rparr>] \<rparr>,
              \<lparr> msg_text = ''unused rule'', msg_location = None, msg_notes = None \<rparr>],
           watchFiles = Some [] \<rparr>
   \<and> start_line sample_span = 4"
proof -
  let ?engine = "sample_engine (Inr \<lparr> css = ''a{}'', result_sourceMap = None, loadedUrls = [] \<rparr>)"
  let ?res = "\<lparr> loader = ''css'', contents = Some ''a{}'', errors = None,
           warnings = map (\<lambda>(txt, opts). logger_warn sample_node txt opts)
             (logged (?engine (lazyPool sample_module) ''a {}''
                (compileOptions sample_node ''/root/src/a.scss'' ''scss'' sample_options
                   (resolveUrl sample_build)))),
           watchFiles = Some [] \<rparr>"
  have ret: "fst (compileString sample_node ?engine sample_module ''a {}'' ''/root/src/a.scss''
      ''scss'' sample_options (resolveUrl sample_build)) = Inr ?res"
    by (simp add: compileString_def Let_def sample_engine_def pushWarnings_map)
  note t = compileString_warnings
      [where engine = ?engine and m = sample_module and data = "''a {}''" and n = sample_node
         and filePath = "''/root/src/a.scss''" and syn = "''scss''"
         and options = sample_options and r = "resolveUrl sample_build", OF refl ret]
  from t have "warnings ?res = map (\<lambda>(txt, opts). logger_warn sample_node txt opts)
             (logged (?engine (lazyPool sample_module) ''a {}''
                (compileOptions sample_node ''/root/src/a.scss'' ''scss'' sample_options
                   (resolveUrl sample_build))))"
    by blast
  then show ?thesis
    using ret
    by (simp add: sample_engine_def sample_span_def logger_warn_def sample_node_def)
qed

text \<open>
  C5. For a compilation that succeeds, with an engine that gives a source map exactly
  when its options ask for one: with \<^verbatim>\<open>sourcemap\<close> enabled the contents are the CSS, a
  line feed and the comment \<^verbatim>\<open>/*# sourceMappingURL=data:application/json;charset=utf-8;base64,\<close>
  payload \<^verbatim>\<open> */\<close>, where the payload decodes (by any inverse of the encoder) to the
  JSON text of the source map whose sources are the paths of the engine's source
  URLs, relative to the directory of the compiled file, the other fields unchanged;
  with \<^verbatim>\<open>sourcemap\<close> disabled the contents are the CSS.
\<close>

theorem compileString_sourcemap:
  assumes "engine (lazyPool m) data (compileOptions n filePath syn options r) = run"
    and "outcome run = Inr result"
    and "(result_sourceMap result \<noteq> None) = sourceMap (compileOptions n filePath syn options r)"
    and "\<forall>s. decode (base64 n s) = s"
  shows "\<exists>res. fst (compileString n engine m data filePath syn options r) = Inr res
    \<and> (sourcemap options \<longrightarrow>
         (\<exists>sm payload. result_sourceMap result = Some sm
            \<and> contents res = Some (css result @ [CHR 0x0A]
                 @ ''/*# sourceMappingURL=data:application/json;charset=utf-8;base64,''
                 @ payload @ '' */'')
            \<and> decode payload = json_stringify n
                 (sm\<lparr>sources := map (\<lambda>source. relative n (dirname n filePath) (fileURLToPath n source))
                                   (sources sm)\<rparr>)))
    \<and> (\<not> sourcemap options \<longrightarrow> contents res = Some (css result))"
proof (cases "result_sourceMap result")
  case None
  with assms show ?thesis
    by (simp add: compileString_def Let_def compileOptions_def)
next
  case (Some sm)
  with assms show ?thesis
    by (simp add: compileString_def Let_def compileOptions_def sourceMapToUrlComment_def)
qed

theorem compileString_sourcemap_witness:
  "fst (compileString sample_node
      (sample_engine (Inr \<lparr> css = ''a{}'', result_sourceMap = Some sample_map, loadedUrls = [] \<rparr>))
      sample_module ''a {}'' ''/root/src/a.scss'' ''scss'' sample_options (resolveUrl sample_build)) =
     Inr \<lparr> loader = ''css'',
           contents = Some (''a{}'' @ [CHR 0x0A]
             @ ''/*# sourceMappingURL=data:application/json;charset=utf-8;base64,''
             @ rev ''a.scss,lib/b.scss'' @ '' */''),
           errors = None,
           warnings = map (\<lambda>(txt, opts). logger_warn sample_node txt opts)
             [(''slash-div is deprecated'', \<lparr> deprecation = True, warn_span = Some sample_span \<rparr>),
              (''unused rule'', \<lparr> deprecation = False, warn_span = None \<rparr>)],
           watchFiles = Some [] \<rparr>
   \<and> sourcemap sample_options
   \<and> fst (compileString sample_node
      (sample_engine (Inr \<lparr> css = ''a{}'', result_sourceMap = None, loadedUrls = [] \<rparr>))
      sample_module ''a {}'' ''/root/src/a.scss'' ''scss'' (sample_options\<lparr>sourcemap := False\<rparr>)
      (resolveUrl sample_build)) =
     Inr \<lparr> loader = ''css'', contents = Some ''a{}'', errors = None,
           warnings = map (\<lambda>(txt, opts). logger_warn sample_node txt opts)
             [(''slash-div is deprecated'', \<lparr> deprecation = True, warn_span = Some sample_span \<rparr>),
              (''unused rule'', \<lparr> deprecation = False, warn_span = None \<rparr>)],
           watchFiles = Some [] \<rparr>"
proof -
  let ?on = "\<lparr> css = ''a{}'', result_sourceMap = Some sample_map, loadedUrls = [] \<rparr>"
  let ?off = "\<lparr> css = ''a{}'', result_sourceMap = None, loadedUrls = [] \<rparr>"
  let ?options' = "sample_options\<lparr>sourcemap := False\<rparr>"
  have dec: "\<forall>s. rev (base64 sample_node s) = s" by (simp add: sample_node_def)
  have o1: "outcome (sample_engine (Inr ?on) (lazyPool sample_module) ''a {}''
      (compileOptions sample_node ''/root/src/a.scss'' ''scss'' sample_options (resolveUrl sample_build)))
      = Inr ?on"
    by (simp add: sample_engine_def)
  have c1: "(result_sourceMap ?on \<noteq> None) =
      sourceMap (compileOptions sample_node ''/root/src/a.scss'' ''scss'' sample_options
        (resolveUrl sample_build))"
    by (simp add: compileOptions_def sample_options_def)
  have o2: "outcome (sample_engine (Inr ?off) (lazyPool sample_module) ''a {}''
      (compileOptions sample_node ''/root/src/a.scss'' ''scss'' ?options' (resolveUrl sample_build)))
      = Inr ?off"
    by (simp add: sample_engine_def)
  have c2: "(result_sourceMap ?off \<noteq> None) =
      sourceMap (compileOptions sample_node ''/root/src/a.scss'' ''scss'' ?options'
        (resolveUrl sample_build))"
    by (simp add: compileOptions_def sample_options_def)
  note t1 = compileString_sourcemap
      [where engine = "sample_engine (Inr ?on)" and m = sample_module and data = "''a {}''"
         and n = sample_node and filePath = "''/root/src/a.scss''" and syn = "''scss''"
         and options = sample_options and r = "resolveUrl sample_build" and decode = rev,
       OF refl o1 c1 dec]
  note t2 = compileString_sourcemap
      [where engine = "sample_engine (Inr ?off)" and m = sample_module and data = "''a {}''"
         and n = sample_node and filePath = "''/root/src/a.scss''" and syn = "''scss''"
         and options = ?options' and r = "resolveUrl sample_build" and decode = rev,
       OF refl o2 c2 dec]
  have s: "sourcemap sample_options" by (simp add: sample_options_def)
  show ?thesis
    using t1 t2 s
    by (simp add: compileString_def Let_def sample_engine_def pushWarnings_map
          sourceMapToUrlComment_def sample_map_def sample_node_def)
qed

subsection \<open>Identifiers of component stylesheets\<close>

lemma digit_inject: "d < 10 \<Longrightarrow> e < 10 \<Longrightarrow> digit d = digit e \<Longrightarrow> d = e"
proof -
  assume a: "d < 10" "e < 10" "digit d = digit e"
  have dist: "distinct ''0123456789''" by simp
  have len: "length ''0123456789'' = 10" by simp
  from a len have "d < length ''0123456789''" "e < length ''0123456789''" by simp_all
  from nth_eq_iff_index_eq [OF dist this] a(3) show "d = e"
    unfolding digit_def by blast
qed

lemma digit_not_separator: "d < 10 \<Longrightarrow> digit d \<noteq> CHR '';''"
proof -
  assume a: "d < 10"
  have len: "length ''0123456789'' = 10" by simp
  from a len have "d < length ''0123456789''" by simp
  from nth_mem [OF this] have "digit d \<in> set ''0123456789''"
    unfolding digit_def .
  moreover have "CHR '';'' \<notin> set ''0123456789''" by simp
  ultimately show ?thesis by metis
qed

lemma string_of_nat_not_Nil: "string_of_nat k \<noteq> []"
  by (subst string_of_nat.simps) simp

lemma string_of_nat_no_separator: "CHR '';'' \<notin> set (string_of_nat k)"
proof (induction k rule: string_of_nat.induct)
  case (1 k)
  show ?case
  proof (cases "k < 10")
    case True
    then show ?thesis
      using digit_not_separator [of k]
      by (subst string_of_nat.simps) auto
  next
    case False
    moreover have "k mod 10 < 10" by simp
    ultimately show ?thesis
      using 1 digit_not_separator [of "k mod 10"]
      by (subst string_of_nat.simps) auto
  qed
qed

lemma string_of_nat_inject: "string_of_nat k = string_of_nat m \<Longrightarrow> k = m"
proof (induction k arbitrary: m rule: string_of_nat.induct)
  case (1 k)
  show ?case
  proof (cases "k < 10")
    case small: True
    show ?thesis
    proof (cases "m < 10")
      case True
      with small 1(2) show ?thesis
        by (simp add: string_of_nat.simps [of k] string_of_nat.simps [of m] digit_inject)
    next
      case False
      with small 1(2) show ?thesis
        using string_of_nat_not_Nil [of "m div 10"]
        by (simp add: string_of_nat.simps [of k] string_of_nat.simps [of m])
    qed
  next
    case large: False
    show ?thesis
    proof (cases "m < 10")
      case True
      with large 1(2) show ?thesis
        using string_of_nat_not_Nil [of "k div 10"]
        by (simp add: string_of_nat.simps [of k] string_of_nat.simps [of m])
    next
      case False
      with large 1(2) have eq: "string_of_nat (k div 10) = string_of_nat (m div 10)"
        and d: "digit (k mod 10) = digit (m mod 10)"
        by (simp_all add: string_of_nat.simps [of k] string_of_nat.simps [of m])
      from 1(1) [OF large eq] have "k div 10 = m div 10" .
      moreover from d have "k mod 10 = m mod 10" by (simp add: digit_inject)
      moreover have "k = 10 * (k div 10) + k mod 10" "m = 10 * (m div 10) + m mod 10"
        by simp_all
      ultimately show ?thesis by metis
    qed
  qed
qed

lemma append_separator_eq:
  "c \<notin> set xs \<Longrightarrow> c \<notin> set xs' \<Longrightarrow> xs @ c # ys = xs' @ c # ys' \<Longrightarrow> xs = xs' \<and> ys = ys'"
proof (induction xs arbitrary: xs')
  case Nil
  then show ?case by (cases xs') auto
next
  case (Cons x xs)
  then show ?case by (cases xs') auto
qed

lemma componentEntry_Counter:
  "componentEntry language (Counter k) filename =
     language @ CHR '';'' # string_of_nat k @ CHR '';'' # filename"
  by (simp add: componentEntry_def)

lemma componentEntry_inject:
  assumes "CHR '';'' \<notin> set l" "CHR '';'' \<notin> set l'"
    and "componentEntry l (Counter k) f = componentEntry l' (Counter k') f'"
  shows "k = k'"
proof -
  from assms(3) have "l @ CHR '';'' # (string_of_nat k @ CHR '';'' # f) =
      l' @ CHR '';'' # (string_of_nat k' @ CHR '';'' # f')"
    by (simp add: componentEntry_Counter)
  from append_separator_eq [OF assms(1,2) this]
  have "string_of_nat k @ CHR '';'' # f = string_of_nat k' @ CHR '';'' # f'" by simp
  from append_separator_eq [OF string_of_nat_no_separator string_of_nat_no_separator this]
  show ?thesis by (simp add: string_of_nat_inject)
qed

lemma filter_take_less:
  assumes "i < j" "j \<le> length xs" "P (xs ! i)"
  shows "length (filter P (take i xs)) < length (filter P (take j xs))"
proof -
  from assms have i: "i < length xs" by simp
  have "take (Suc i) (take j xs) @ drop (Suc i) (take j xs) = take j xs"
    by (rule append_take_drop_id)
  moreover have "take (Suc i) (take j xs) = take (Suc i) xs"
    using assms(1) by (simp add: min_def)
  ultimately have "take j xs = take (Suc i) xs @ drop (Suc i) (take j xs)" by simp
  then have "filter P (take j xs) =
      filter P (take (Suc i) xs) @ filter P (drop (Suc i) (take j xs))"
    by (metis filter_append)
  then have "length (filter P (take (Suc i) xs)) \<le> length (filter P (take j xs))"
    by simp
  moreover have "length (filter P (take (Suc i) xs)) = Suc (length (filter P (take i xs)))"
    using i assms(3) by (simp add: take_Suc_conv_app_nth)
  ultimately show ?thesis by simp
qed

lemma bundleComponentStylesheet_counter:
  "snd (bundleComponentStylesheet n bundle language data filename inline options cache c) =
     snd (componentStyleId n inline data c)"
  by (simp add: bundleComponentStylesheet_def componentBuildOptions_def Let_def split: prod.splits)

lemma componentBuildOptions_entryPoints:
  "entryPoints (fst (componentBuildOptions n language data filename inline options cache c)) =
     Some [namespace @ '';'' @
           componentEntry language (fst (componentStyleId n inline data c)) filename]"
  by (simp add: componentBuildOptions_def Let_def split: prod.splits)

lemma bundleComponentStylesheet_unfold:
  "bundleComponentStylesheet n bundler' language data filename inline options cache c =
     (componentResult n (bundler' (workspaceRoot options) False
        (fst (componentBuildOptions n language data filename inline options cache c))),
      snd (componentStyleId n inline data c))"
  by (simp add: bundleComponentStylesheet_def componentBuildOptions_def Let_def split: prod.splits)

lemma componentStyleId_counter:
  "snd (componentStyleId n inline data c) = (if inline then c else c + 1)"
  by (simp add: componentStyleId_def)

lemma session_Cons:
  "session n bundler' c (x # rest) =
     (let call = bundleComponentStylesheet n bundler' (call_language x) (call_data x)
                   (call_filename x) (call_inline x) (call_options x) (call_cache x) c
      in (fst call # fst (session n bundler' (snd call) rest),
          snd (session n bundler' (snd call) rest)))"
  by (simp add: Let_def case_prod_beta)

lemma session_length: "length (fst (session n bundler' c calls)) = length calls"
  by (induction calls arbitrary: c) (simp_all add: session_Cons Let_def del: session.simps(2))

lemma session_nth:
  "i < length calls \<Longrightarrow>
   fst (session n bundler' c calls) ! i =
     fst (bundleComponentStylesheet n bundler' (call_language (calls ! i)) (call_data (calls ! i))
            (call_filename (calls ! i)) (call_inline (calls ! i)) (call_options (calls ! i))
            (call_cache (calls ! i))
            (c + length (filter (\<lambda>y. \<not> call_inline y) (take i calls))))"
proof (induction calls arbitrary: c i)
  case Nil
  then show ?case by simp
next
  case (Cons x rest)
  show ?case
  proof (cases i)
    case 0
    then show ?thesis by (simp add: session_Cons Let_def del: session.simps(2))
  next
    case (Suc i')
    with Cons.prems have "i' < length rest" by simp
    from Cons.IH [OF this] Suc show ?thesis
      by (simp add: session_Cons Let_def bundleComponentStylesheet_counter
            componentStyleId_counter del: session.simps(2))
  qed
qed

text \<open>
  C6. A call of \<^verbatim>\<open>bundleComponentStylesheet\<close> for an inline stylesheet, with any
  bundler, at any value of the counter: the entry point the bundler is given is made
  of the language, the SHA-256 digest of the data in hexadecimal and the file name;
  what the call returns is made of the result of that pass, and the counter is left as
  it is. So two calls on the same data give the bundler the same identifier, whatever
  the counter, the language, the file name and the options of each are.
\<close>

theorem inline_identifier_deterministic:
  "\<exists>buildOptions buildOptions'.
     bundleComponentStylesheet n bundler' language data filename True options cache c =
       (componentResult n (bundler' (workspaceRoot options) False buildOptions), c)
   \<and> entryPoints buildOptions =
       Some [''angular:styles/component;'' @ language @ '';'' @ sha256_hex n data @ '';'' @ filename]
   \<and> bundleComponentStylesheet n bundler'' language' data filename' True options' cache' c' =
       (componentResult n (bundler'' (workspaceRoot options') False buildOptions'), c')
   \<and> entryPoints buildOptions' =
       Some [''angular:styles/component;'' @ language' @ '';'' @ sha256_hex n data @ '';'' @ filename']"
proof (intro exI conjI)
  show "bundleComponentStylesheet n bundler' language data filename True options cache c =
      (componentResult n (bundler' (workspaceRoot options) False
         (fst (componentBuildOptions n language data filename True options cache c))), c)"
    by (simp add: bundleComponentStylesheet_unfold componentStyleId_counter)
  show "bundleComponentStylesheet n bundler'' language' data filename' True options' cache' c' =
      (componentResult n (bundler'' (workspaceRoot options') False
         (fst (componentBuildOptions n language' data filename' True options' cache' c'))), c')"
    by (simp add: bundleComponentStylesheet_unfold componentStyleId_counter)
  show "entryPoints (fst (componentBuildOptions n language data filename True options cache c)) =
      Some [''angular:styles/component;'' @ language @ '';'' @ sha256_hex n data @ '';'' @ filename]"
    by (simp add: componentBuildOptions_entryPoints componentStyleId_def componentEntry_def
          namespace_def)
  show "entryPoints (fst (componentBuildOptions n language' data filename' True options' cache' c')) =
      Some [''angular:styles/component;'' @ language' @ '';'' @ sha256_hex n data @ '';'' @ filename']"
    by (simp add: componentBuildOptions_entryPoints componentStyleId_def componentEntry_def
          namespace_def)
qed

lemma reporting_bundler_warnings:
  "entryPoints buildOptions = Some points \<Longrightarrow>
   out_warnings (componentResult n (reporting_bundler root rebuild buildOptions)) =
     map (\<lambda>entryPoint'. \<lparr> msg_text = entryPoint', msg_location = None, msg_notes = None \<rparr>) points"
  by (simp add: componentResult_def reporting_bundler_def Let_def)

theorem inline_identifier_deterministic_witness:
  "sha256_hex sample_node ''.a { color: red; }'' = ''18''
   \<and> out_warnings (fst (bundleComponentStylesheet sample_node reporting_bundler ''css''
        ''.a { color: red; }'' ''/root/src/a.component.ts'' True sample_bundle_options None 0)) =
       [\<lparr> msg_text = ''angular:styles/component;css;18;/root/src/a.component.ts'',
           msg_location = None, msg_notes = None \<rparr>]
   \<and> snd (bundleComponentStylesheet sample_node reporting_bundler ''css''
        ''.a { color: red; }'' ''/root/src/a.component.ts'' True sample_bundle_options None 0) = 0
   \<and> out_warnings (fst (bundleComponentStylesheet sample_node reporting_bundler ''scss''
        ''.a { color: red; }'' ''/root/src/b.component.ts'' True sample_bundle_options None 7)) =
       [\<lparr> msg_text = ''angular:styles/component;scss;18;/root/src/b.component.ts'',
           msg_location = None, msg_notes = None \<rparr>]
   \<and> snd (bundleComponentStylesheet sample_node reporting_bundler ''scss''
        ''.a { color: red; }'' ''/root/src/b.component.ts'' True sample_bundle_options None 7) = 7"
proof -
  have h: "sha256_hex sample_node ''.a { color: red; }'' = ''18''"
    by code_simp
  from inline_identifier_deterministic
      [where n = sample_node and data = "''.a { color: red; }''"
         and bundler' = reporting_bundler and language = "''css''"
         and filename = "''/root/src/a.component.ts''" and options = sample_bundle_options
         and cache = None and c = 0
         and bundler'' = reporting_bundler and language' = "''scss''"
         and filename' = "''/root/src/b.component.ts''" and options' = sample_bundle_options
         and cache' = None and c' = 7]
  obtain buildOptions buildOptions' where
    first: "bundleComponentStylesheet sample_node reporting_bundler ''css'' ''.a { color: red; }''
        ''/root/src/a.component.ts'' True sample_bundle_options None 0 =
       (componentResult sample_node
          (reporting_bundler (workspaceRoot sample_bundle_options) False buildOptions), 0)"
    and entry: "entryPoints buildOptions =
       Some [''angular:styles/component;'' @ ''css'' @ '';'' @
             sha256_hex sample_node ''.a { color: red; }'' @ '';'' @ ''/root/src/a.component.ts'']"
    and second: "bundleComponentStylesheet sample_node reporting_bundler ''scss'' ''.a { color: red; }''
        ''/root/src/b.component.ts'' True sample_bundle_options None 7 =
       (componentResult sample_node
          (reporting_bundler (workspaceRoot sample_bundle_options) False buildOptions'), 7)"
    and entry': "entryPoints buildOptions' =
       Some [''angular:styles/component;'' @ ''scss'' @ '';'' @
             sha256_hex sample_node ''.a { color: red; }'' @ '';'' @ ''/root/src/b.component.ts'']"
    by blast
  from first entry h second entry' show ?thesis
    by (simp add: reporting_bundler_warnings)
qed

lemma file_entryPoints:
  "entryPoints (fst (componentBuildOptions n language data filename False options cache k)) =
     Some [''angular:styles/component;'' @ language @ '';'' @ string_of_nat k @ '';'' @ filename]"
  by (simp add: componentBuildOptions_entryPoints componentStyleId_def componentEntry_def
        namespace_def)

lemma file_entryPoint_inject:
  assumes "CHR '';'' \<notin> set l" "CHR '';'' \<notin> set l'"
    and "''angular:styles/component;'' @ l @ '';'' @ string_of_nat k @ '';'' @ f =
         ''angular:styles/component;'' @ l' @ '';'' @ string_of_nat k' @ '';'' @ f'"
  shows "k = k'"
proof -
  from assms(3) have "componentEntry l (Counter k) f = componentEntry l' (Counter k') f'"
    by (simp add: componentEntry_Counter)
  from componentEntry_inject [OF assms(1,2) this] show ?thesis .
qed

text \<open>
  C7. In a session, with any bundler and from any value of the counter, take two
  different calls of \<^verbatim>\<open>bundleComponentStylesheet\<close> for stylesheet files. What each
  returns is made of the result of a pass whose entry point is made of the language of
  the call, a value of the counter in decimal and the file name of the call; the
  value of the later call is the greater one, so the two identifiers differ, also as
  written in the entry point. The whole entry points differ as well when the two
  language tags have no semicolon.
\<close>

theorem file_identifiers_unique:
  assumes "i < j" and "j < length calls"
    and "\<not> call_inline (calls ! i)" and "\<not> call_inline (calls ! j)"
  shows "\<exists>a b buildOptions buildOptions'.
      fst (session n bundler' c calls) ! i =
        componentResult n
          (bundler' (workspaceRoot (call_options (calls ! i))) False buildOptions)
    \<and> entryPoints buildOptions =
        Some [''angular:styles/component;'' @ call_language (calls ! i) @ '';'' @
              string_of_nat a @ '';'' @ call_filename (calls ! i)]
    \<and> fst (session n bundler' c calls) ! j =
        componentResult n
          (bundler' (workspaceRoot (call_options (calls ! j))) False buildOptions')
    \<and> entryPoints buildOptions' =
        Some [''angular:styles/component;'' @ call_language (calls ! j) @ '';'' @
              string_of_nat b @ '';'' @ call_filename (calls ! j)]
    \<and> c \<le> a \<and> a < b \<and> string_of_nat a \<noteq> string_of_nat b
    \<and> (CHR '';'' \<notin> set (call_language (calls ! i)) \<and> CHR '';'' \<notin> set (call_language (calls ! j))
        \<longrightarrow> entryPoints buildOptions \<noteq> entryPoints buildOptions')"
proof -
  let ?count = "\<lambda>k. length (filter (\<lambda>y. \<not> call_inline y) (take k calls))"
  let ?options = "\<lambda>k. fst (componentBuildOptions n (call_language (calls ! k)) (call_data (calls ! k))
      (call_filename (calls ! k)) False (call_options (calls ! k)) (call_cache (calls ! k))
      (c + ?count k))"
  from assms have i: "i < length calls" by simp
  have less: "?count i < ?count j"
    using assms by (intro filter_take_less) simp_all
  have si: "fst (session n bundler' c calls) ! i =
      componentResult n (bundler' (workspaceRoot (call_options (calls ! i))) False (?options i))"
    using session_nth [OF i, of n bundler' c] assms(3)
    by (simp add: bundleComponentStylesheet_unfold)
  have sj: "fst (session n bundler' c calls) ! j =
      componentResult n (bundler' (workspaceRoot (call_options (calls ! j))) False (?options j))"
    using session_nth [OF assms(2), of n bundler' c] assms(4)
    by (simp add: bundleComponentStylesheet_unfold)
  have ei: "entryPoints (?options i) =
      Some [''angular:styles/component;'' @ call_language (calls ! i) @ '';'' @
            string_of_nat (c + ?count i) @ '';'' @ call_filename (calls ! i)]"
    by (rule file_entryPoints)
  have ej: "entryPoints (?options j) =
      Some [''angular:styles/component;'' @ call_language (calls ! j) @ '';'' @
            string_of_nat (c + ?count j) @ '';'' @ call_filename (calls ! j)]"
    by (rule file_entryPoints)
  have order: "c \<le> c + ?count i" "c + ?count i < c + ?count j"
    using less by simp_all
  have texts: "string_of_nat (c + ?count i) \<noteq> string_of_nat (c + ?count j)"
    using less string_of_nat_inject [of "c + ?count i" "c + ?count j"] by auto
  have points: "CHR '';'' \<notin> set (call_language (calls ! i)) \<and>
      CHR '';'' \<notin> set (call_language (calls ! j)) \<longrightarrow>
      entryPoints (?options i) \<noteq> entryPoints (?options j)"
  proof (intro impI notI)
    assume sep: "CHR '';'' \<notin> set (call_language (calls ! i)) \<and>
        CHR '';'' \<notin> set (call_language (calls ! j))"
      and eq: "entryPoints (?options i) = entryPoints (?options j)"
    from eq have "''angular:styles/component;'' @ call_language (calls ! i) @ '';'' @
          string_of_nat (c + ?count i) @ '';'' @ call_filename (calls ! i) =
        ''angular:styles/component;'' @ call_language (calls ! j) @ '';'' @
          string_of_nat (c + ?count j) @ '';'' @ call_filename (calls ! j)"
      unfolding ei ej by simp
    from file_entryPoint_inject [OF _ _ this] sep have "c + ?count i = c + ?count j" by blast
    with less show False by simp
  qed
  from si ei sj ej order texts points show ?thesis by blast
qed

theorem file_identifiers_unique_witness:
  "(0::nat) < 2 \<and> (2::nat) < length sample_calls
   \<and> \<not> call_inline (sample_calls ! 0) \<and> \<not> call_inline (sample_calls ! 2)
   \<and> CHR '';'' \<notin> set (call_language (sample_calls ! 0))
   \<and> CHR '';'' \<notin> set (call_language (sample_calls ! 2))
   \<and> map out_warnings (fst (session sample_node reporting_bundler 0 sample_calls)) =
       [[\<lparr> msg_text = ''angular:styles/component;scss;0;/root/src/a.scss'',
            msg_location = None, msg_notes = None \<rparr>],
        [\<lparr> msg_text = ''angular:styles/component;css;4;/root/src/b.ts'',
            msg_location = None, msg_notes = None \<rparr>],
        [\<lparr> msg_text = ''angular:styles/component;scss;1;/root/src/a.scss'',
            msg_location = None, msg_notes = None \<rparr>]]
   \<and> snd (session sample_node reporting_bundler 0 sample_calls) = 2
   \<and> out_warnings (fst (session sample_node reporting_bundler 0 sample_calls) ! 0) \<noteq>
       out_warnings (fst (session sample_node reporting_bundler 0 sample_calls) ! 2)"
proof -
  have h1: "(0::nat) < 2" by simp
  have h2: "(2::nat) < length sample_calls" by (simp add: sample_calls_def)
  have h3: "\<not> call_inline (sample_calls ! 0)" by (simp add: sample_calls_def)
  have h4: "\<not> call_inline (sample_calls ! 2)" by (simp add: sample_calls_def)
  have h5: "CHR '';'' \<notin> set (call_language (sample_calls ! 0))" by (simp add: sample_calls_def)
  have h6: "CHR '';'' \<notin> set (call_language (sample_calls ! 2))" by (simp add: sample_calls_def)
  have run: "map out_warnings (fst (session sample_node reporting_bundler 0 sample_calls)) =
       [[\<lparr> msg_text = ''angular:styles/component;scss;0;/root/src/a.scss'',
            msg_location = None, msg_notes = None \<rparr>],
        [\<lparr> msg_text = ''angular:styles/component;css;4;/root/src/b.ts'',
            msg_location = None, msg_notes = None \<rparr>],
        [\<lparr> msg_text = ''angular:styles/component;scss;1;/root/src/a.scss'',
            msg_location = None, msg_notes = None \<rparr>]]"
    by code_simp
  have after: "snd (session sample_node reporting_bundler 0 sample_calls) = 2"
    by code_simp
  from file_identifiers_unique [OF h1 h2 h3 h4, of sample_node reporting_bundler 0] h5 h6
  obtain buildOptions buildOptions' where
    r0: "fst (session sample_node reporting_bundler 0 sample_calls) ! 0 =
        componentResult sample_node (reporting_bundler
          (workspaceRoot (call_options (sample_calls ! 0))) False buildOptions)"
    and r2: "fst (session sample_node reporting_bundler 0 sample_calls) ! 2 =
        componentResult sample_node (reporting_bundler
          (workspaceRoot (call_options (sample_calls ! 2))) False buildOptions')"
    and some: "\<exists>points. entryPoints buildOptions = Some points"
    and some': "\<exists>points. entryPoints buildOptions' = Some points"
    and differ: "entryPoints buildOptions \<noteq> entryPoints buildOptions'"
    by blast
  from some some' differ have
    "out_warnings (componentResult sample_node (reporting_bundler
        (workspaceRoot (call_options (sample_calls ! 0))) False buildOptions)) \<noteq>
     out_warnings (componentResult sample_node (reporting_bundler
        (workspaceRoot (call_options (sample_calls ! 2))) False buildOptions'))"
    by (auto simp: reporting_bundler_warnings inj_on_def dest!: map_inj_on [rotated])
  with r0 r2 have "out_warnings (fst (session sample_node reporting_bundler 0 sample_calls) ! 0) \<noteq>
       out_warnings (fst (session sample_node reporting_bundler 0 sample_calls) ! 2)"
    by simp
  with h1 h2 h3 h4 h5 h6 run after show ?thesis by blast
qed

subsection \<open>The worker pool\<close>

text \<open>
  C8. Shutting down is idempotent, whatever \<^verbatim>\<open>close\<close> does. With no pool the call
  returns, leaves the state as it is and does not call \<^verbatim>\<open>close\<close>. After a call that
  returned the pool is cleared, and a second call returns, gives the same state and
  calls \<^verbatim>\<open>close\<close> no further time. A call on a pool whose \<^verbatim>\<open>close\<close> returns does
  return, having called \<^verbatim>\<open>close\<close> once.
\<close>

theorem shutdownSassWorkerPool_idempotent:
  "(sassWorkerPool m = None \<longrightarrow> shutdownSassWorkerPool close m = (None, m))
   \<and> (fst (shutdownSassWorkerPool close m) = None \<longrightarrow>
        sassWorkerPool (snd (shutdownSassWorkerPool close m)) = None
        \<and> shutdownSassWorkerPool close (snd (shutdownSassWorkerPool close m)) =
            (None, snd (shutdownSassWorkerPool close m)))
   \<and> (\<forall>pool. sassWorkerPool m = Some pool \<and> close pool = None \<longrightarrow>
         shutdownSassWorkerPool close m =
           (None, m\<lparr>closed := closed m @ [pool], sassWorkerPool := None\<rparr>))"
  by (cases "sassWorkerPool m"; cases "close (the (sassWorkerPool m))")
     (simp_all add: shutdownSassWorkerPool_def)

theorem shutdownSassWorkerPool_idempotent_witness:
  "sassWorkerPool sample_module = None
   \<and> shutdownSassWorkerPool (\<lambda>pool. Some (JsError ''terminated'')) sample_module = (None, sample_module)
   \<and> sassWorkerPool (sample_module\<lparr>sassWorkerPool := Some (SassWorkerImplementation True)\<rparr>) =
       Some (SassWorkerImplementation True)
   \<and> shutdownSassWorkerPool (\<lambda>pool. None)
        (sample_module\<lparr>sassWorkerPool := Some (SassWorkerImplementation True)\<rparr>) =
       (None, \<lparr> sassWorkerPool = None, closed = [SassWorkerImplementation True] \<rparr>)
   \<and> shutdownSassWorkerPool (\<lambda>pool. None)
        (snd (shutdownSassWorkerPool (\<lambda>pool. None)
           (sample_module\<lparr>sassWorkerPool := Some (SassWorkerImplementation True)\<rparr>))) =
       (None, \<lparr> sassWorkerPool = None, closed = [SassWorkerImplementation True] \<rparr>)"
proof -
  let ?m = "sample_module\<lparr>sassWorkerPool := Some (SassWorkerImplementation True)\<rparr>"
  let ?throws = "\<lambda>pool :: worker_pool. Some (JsError ''terminated'')"
  let ?returns = "\<lambda>pool :: worker_pool. None :: js_thrown option"
  have none: "sassWorkerPool sample_module = None" by (simp add: sample_module_def)
  have some: "sassWorkerPool ?m = Some (SassWorkerImplementation True)" by simp
  from shutdownSassWorkerPool_idempotent [of sample_module ?throws] none
  have a: "shutdownSassWorkerPool ?throws sample_module = (None, sample_module)" by blast
  from shutdownSassWorkerPool_idempotent [of ?m ?returns] some
  have "shutdownSassWorkerPool ?returns ?m =
      (None, ?m\<lparr>closed := closed ?m @ [SassWorkerImplementation True], sassWorkerPool := None\<rparr>)"
    by blast
  then have once: "shutdownSassWorkerPool ?returns ?m =
      (None, \<lparr> sassWorkerPool = None, closed = [SassWorkerImplementation True] \<rparr>)"
    by (simp add: sample_module_def)
  from once have returned: "fst (shutdownSassWorkerPool ?returns ?m) = None" by simp
  from shutdownSassWorkerPool_idempotent [of ?m ?returns] returned
  have "shutdownSassWorkerPool ?returns (snd (shutdownSassWorkerPool ?returns ?m)) =
      (None, snd (shutdownSassWorkerPool ?returns ?m))"
    by blast
  with once have twice: "shutdownSassWorkerPool ?returns (snd (shutdownSassWorkerPool ?returns ?m)) =
      (None, \<lparr> sassWorkerPool = None, closed = [SassWorkerImplementation True] \<rparr>)"
    by simp
  from none a some once twice show ?thesis by blast
qed

subsection \<open>The template of a component\<close>

text \<open>
  C9. With a \<^verbatim>\<open>templateUrl\<close> and no \<^verbatim>\<open>template\<close> property, when the path of the template
  is computed and reading it throws, the result is the empty string and nothing is
  thrown. With a \<^verbatim>\<open>template\<close> property the result is its full text and no file is
  read.
\<close>

theorem getComponentTemplate_soft_skip:
  "(templateProp tmplInfo = None \<and> templateUrlProp tmplInfo = Some urlProp
      \<and> core_normalize host compPath = Inr normalized
      \<and> core_join host (core_dirname host normalized) (initializer_text urlProp) = Inr templatePath
      \<and> readText host templatePath = Inl thrown
     \<longrightarrow> getComponentTemplate host compPath tmplInfo = (Inr [], [templatePath]))
   \<and> (templateProp tmplInfo = Some inlineProp
     \<longrightarrow> getComponentTemplate host compPath tmplInfo = (Inr (getFullText inlineProp), []))"
  by (simp add: getComponentTemplate_def)

theorem getComponentTemplate_soft_skip_witness:
  "core_normalize sample_devkit ''/src/app/other.component.ts'' = Inr ''/src/app/other.component.ts''
   \<and> core_join sample_devkit (core_dirname sample_devkit ''/src/app/other.component.ts'')
        ''./other.component.html'' = Inr ''/src/app/./other.component.html''
   \<and> readText sample_devkit ''/src/app/./other.component.html'' = Inl (JsError ''Path does not exist.'')
   \<and> getComponentTemplate sample_devkit ''/src/app/other.component.ts''
        \<lparr> templateProp = None,
          templateUrlProp = Some \<lparr> getFullText = '' templateUrl: \"./other.component.html\"'',
                                   initializer_text = ''./other.component.html'' \<rparr> \<rparr> =
       (Inr [], [''/src/app/./other.component.html''])
   \<and> getComponentTemplate sample_devkit ''/src/app/other.component.ts''
        \<lparr> templateProp = Some \<lparr> getFullText = '' template: \"<p>hi</p>\"'',
                                initializer_text = ''<p>hi</p>'' \<rparr>,
          templateUrlProp = Some \<lparr> getFullText = '' templateUrl: \"./other.component.html\"'',
                                   initializer_text = ''./other.component.html'' \<rparr> \<rparr> =
       (Inr '' template: \"<p>hi</p>\"'', [])"
proof -
  let ?urlProp = "\<lparr> getFullText = '' templateUrl: \"./other.component.html\"'',
                    initializer_text = ''./other.component.html'' \<rparr>"
  let ?inlineProp = "\<lparr> getFullText = '' template: \"<p>hi</p>\"'', initializer_text = ''<p>hi</p>'' \<rparr>"
  have n: "core_normalize sample_devkit ''/src/app/other.component.ts'' =
      Inr ''/src/app/other.component.ts''"
    by (simp add: sample_devkit_def)
  have j: "core_join sample_devkit (core_dirname sample_devkit ''/src/app/other.component.ts'')
        ''./other.component.html'' = Inr ''/src/app/./other.component.html''"
    by (simp add: sample_devkit_def)
  have r: "readText sample_devkit ''/src/app/./other.component.html'' =
      Inl (JsError ''Path does not exist.'')"
    by (simp add: sample_devkit_def)
  from getComponentTemplate_soft_skip
      [where tmplInfo = "\<lparr> templateProp = None, templateUrlProp = Some ?urlProp \<rparr>"
         and urlProp = ?urlProp and host = sample_devkit
         and compPath = "''/src/app/other.component.ts''"
         and normalized = "''/src/app/other.component.ts''"
         and templatePath = "''/src/app/./other.component.html''"
         and thrown = "JsError ''Path does not exist.''"] n j r
  have a: "getComponentTemplate sample_devkit ''/src/app/other.component.ts''
        \<lparr> templateProp = None, templateUrlProp = Some ?urlProp \<rparr> =
       (Inr [], [''/src/app/./other.component.html''])"
    by simp
  from getComponentTemplate_soft_skip
      [where tmplInfo = "\<lparr> templateProp = Some ?inlineProp, templateUrlProp = Some ?urlProp \<rparr>"
         and inlineProp = ?inlineProp and host = sample_devkit
         and compPath = "''/src/app/other.component.ts''"]
  have b: "getComponentTemplate sample_devkit ''/src/app/other.component.ts''
        \<lparr> templateProp = Some ?inlineProp, templateUrlProp = Some ?urlProp \<rparr> =
       (Inr '' template: \"<p>hi</p>\"'', [])"
    by simp
  from n j r a b show ?thesis by blast
qed

subsection \<open>A bundling pass with errors\<close>

text \<open>
  C10. When the result of the pass has errors, the component stylesheet has these
  errors and the warnings of the pass, empty contents, no map, no path, no metafile
  and no resource files, whatever output files and metafile the result has.
\<close>

theorem bundleComponentStylesheet_errors:
  assumes "bundler' (workspaceRoot options) False
      (fst (componentBuildOptions n language data filename inline options cache c)) = result"
    and "result_errors result = Some es"
  shows "fst (bundleComponentStylesheet n bundler' language data filename inline options cache c) =
     \<lparr> out_errors = Some es, out_warnings = result_warnings result, out_contents = [],
       out_map = None, out_path = None, out_resourceFiles = [], out_metafile = None \<rparr>"
  using assms
  by (simp add: bundleComponentStylesheet_def componentResult_def Let_def case_prod_beta)

theorem bundleComponentStylesheet_errors_witness:
  "result_errors sample_failure =
     Some [\<lparr> msg_text = ''Could not resolve \"missing-pkg/_x\"'', msg_location = None,
              msg_notes = None \<rparr>]
   \<and> fst (bundleComponentStylesheet sample_node (\<lambda>root rebuild opts. sample_failure) ''scss''
        ''@import \"missing-pkg/_x\";'' ''/root/src/a.component.ts'' True sample_bundle_options None 0) =
     \<lparr> out_errors = Some [\<lparr> msg_text = ''Could not resolve \"missing-pkg/_x\"'',
                             msg_location = None, msg_notes = None \<rparr>],
       out_warnings = [], out_contents = [], out_map = None, out_path = None,
       out_resourceFiles = [], out_metafile = None \<rparr>"
proof -
  have e: "result_errors sample_failure =
     Some [\<lparr> msg_text = ''Could not resolve \"missing-pkg/_x\"'', msg_location = None,
              msg_notes = None \<rparr>]"
    by (simp add: sample_failure_def)
  from bundleComponentStylesheet_errors
      [where bundler' = "\<lambda>root rebuild opts. sample_failure" and n = sample_node
         and language = "''scss''" and data = "''@import \"missing-pkg/_x\";''"
         and filename = "''/root/src/a.component.ts''" and inline = True
         and options = sample_bundle_options and cache = None and c = 0, OF refl e]
  have "fst (bundleComponentStylesheet sample_node (\<lambda>root rebuild opts. sample_failure) ''scss''
        ''@import \"missing-pkg/_x\";'' ''/root/src/a.component.ts'' True sample_bundle_options None 0) =
     \<lparr> out_errors = Some [\<lparr> msg_text = ''Could not resolve \"missing-pkg/_x\"'',
                             msg_location = None, msg_notes = None \<rparr>],
       out_warnings = result_warnings sample_failure, out_contents = [], out_map = None,
       out_path = None, out_resourceFiles = [], out_metafile = None \<rparr>" .
  with e show ?thesis by (simp add: sample_failure_def)
qed

end
